theory Spec2Isabelle
  imports Main "HOL-Library.Word" "HOL-Library.Char_ord" "HOL-Library.List_Lexorder"
begin

section \<open>Go values\<close>

text \<open>
  Go's \<^verbatim>\<open>int\<close> is modelled at 64 bits (the width on every platform the package is
  deployed on), as a word: \<open>+\<close> and \<open>*\<close> wrap around, \<open><s\<close> and \<open>\<le>s\<close> compare the
  two's complement values. A \<^verbatim>\<open>time.Duration\<close> is an \<^verbatim>\<open>int64\<close> count of nanoseconds.
  A \<^verbatim>\<open>time.Time\<close> is an instant, counted in nanoseconds since the Unix epoch; its range in
  Go is far wider than any instant met here, so it is an unbounded integer.
  A Go \<^verbatim>\<open>string\<close> and a \<^verbatim>\<open>[]byte\<close> are byte sequences: \<open>string\<close>, compared byte by byte
  (the lexicographic order of \<^verbatim>\<open>List_Lexorder\<close> over \<^verbatim>\<open>Char_ord\<close>), as Go's \<^verbatim>\<open><\<close> does.
\<close>

type_synonym go_int = "64 word"
type_synonym duration = "64 word"
type_synonym instant = int

text \<open>\<^verbatim>\<open>len(x)\<close> as a Go \<^verbatim>\<open>int\<close>; exact for every slice Go can hold (shorter than \<open>2^63\<close>).\<close>

definition len :: "'a list \<Rightarrow> go_int" where
  "len xs = of_nat (length xs)"

text \<open>\<^verbatim>\<open>t.Add(d)\<close>.\<close>

definition time_Add :: "instant \<Rightarrow> duration \<Rightarrow> instant" where
  "time_Add t d = t + sint d"

definition Minute :: duration where
  "Minute = 60000000000"

definition Hour :: duration where
  "Hour = 3600000000000"

text \<open>The constants of the package.\<close>

definition rfc3339DateFormat :: string where
  "rfc3339DateFormat = ''2006-01-02T15:04:05Z07:00''"

definition dateFormat :: string where
  "dateFormat = ''2006-01-02''"

definition hoursPerDay :: go_int where
  "hoursPerDay = 24"

definition bufferSize :: nat where
  "bufferSize = 100"

definition gzipExt :: string where
  "gzipExt = ''.gz''"

definition megabyte :: go_int where
  "megabyte = 1024 * 1024"

text \<open>
  Errors are values. \<open>ErrIO\<close> stands for an error the operating system reports for a file
  operation; \<open>ErrParse layout value\<close> for a \<^verbatim>\<open>*time.ParseError\<close>;
  \<open>ErrInvalidBackup file\<close> for the \<^verbatim>\<open>fmt.Errorf("Invalid backup log filename: %s", file)\<close>
  of \<^verbatim>\<open>parseBackupTime\<close>. \<open>PanicSliceBounds\<close> is not an error value of Go: it marks a
  call that does not return because a slice expression is out of range.
\<close>

datatype error =
    ErrLogFileClosed
  | ErrInvalid
  | ErrNotExist
  | ErrBadPattern
  | ErrIO string
  | ErrParse string string
  | ErrInvalidBackup string
  | PanicSliceBounds

section \<open>The library functions the package calls\<close>

subsection \<open>Package strings\<close>

text \<open>
  \<^verbatim>\<open>utf8.DecodeRuneInString\<close>, as far as \<^verbatim>\<open>strings.Split\<close> needs it: the number of bytes of
  the first encoded rune (1 for a byte that starts no valid encoding).
\<close>

definition cont_in :: "nat \<Rightarrow> nat \<Rightarrow> char \<Rightarrow> bool" where
  "cont_in lo hi c = (lo \<le> of_char c \<and> of_char c \<le> hi)"

fun rune_size :: "string \<Rightarrow> nat" where
  "rune_size [] = 0"
| "rune_size (b0 # rest) =
     (let x = (of_char b0 :: nat) in
      if x < 128 then 1
      else if 194 \<le> x \<and> x \<le> 223 then
        (case rest of b1 # _ \<Rightarrow> if cont_in 128 191 b1 then 2 else 1 | _ \<Rightarrow> 1)
      else if 224 \<le> x \<and> x \<le> 239 then
        (case rest of b1 # b2 # _ \<Rightarrow>
           if cont_in (if x = 224 then 160 else 128) (if x = 237 then 159 else 191) b1
              \<and> cont_in 128 191 b2 then 3 else 1
         | _ \<Rightarrow> 1)
      else if 240 \<le> x \<and> x \<le> 244 then
        (case rest of b1 # b2 # b3 # _ \<Rightarrow>
           if cont_in (if x = 240 then 144 else 128) (if x = 244 then 143 else 191) b1
              \<and> cont_in 128 191 b2 \<and> cont_in 128 191 b3 then 4 else 1
         | _ \<Rightarrow> 1)
      else 1)"

text \<open>\<^verbatim>\<open>explode\<close>: one string per rune.\<close>

function explode :: "string \<Rightarrow> string list" where
  "explode s = (if s = [] then [] else take (rune_size s) s # explode (drop (rune_size s) s))"
  by pat_completeness auto
termination
proof (relation "measure length")
  show "wf (measure length)"
    by simp
next
  fix s :: string
  assume nonempty: "s \<noteq> []"
  then have "0 < rune_size s"
    by (cases s) (auto simp: Let_def split: list.splits)
  with nonempty show "(drop (rune_size s) s, s) \<in> measure length"
    by simp
qed

declare explode.simps [simp del]

text \<open>
  \<^verbatim>\<open>strings.Split(s, sep)\<close> for a separator that is not empty: the pieces between the
  occurrences of \<open>sep\<close>, found from the left and not overlapping. \<open>acc\<close> holds the piece
  being read, reversed.
\<close>

function split_go :: "string \<Rightarrow> string \<Rightarrow> string \<Rightarrow> string list" where
  "split_go sep acc s =
     (if s = [] then [rev acc]
      else if sep \<noteq> [] \<and> take (length sep) s = sep
        then rev acc # split_go sep [] (drop (length sep) s)
      else split_go sep (hd s # acc) (tl s))"
  by pat_completeness auto
termination
  by (relation "measure (\<lambda>(sep, acc, s). length s)") auto

declare split_go.simps [simp del]

definition strings_Split :: "string \<Rightarrow> string \<Rightarrow> string list" where
  "strings_Split s sep = (if sep = [] then explode s else split_go sep [] s)"

text \<open>\<^verbatim>\<open>strings.Join\<close>.\<close>

fun strings_Join :: "string list \<Rightarrow> string \<Rightarrow> string" where
  "strings_Join [] sep = []"
| "strings_Join [x] sep = x"
| "strings_Join (x # y # ys) sep = x @ sep @ strings_Join (y # ys) sep"

subsection \<open>Package path/filepath (Unix: the separator is \<^verbatim>\<open>/\<close>)\<close>

definition Separator :: char where
  "Separator = CHR ''/''"

text \<open>The part of a path after its last separator.\<close>

definition last_element :: "string \<Rightarrow> string" where
  "last_element path = rev (takeWhile (\<lambda>c. c \<noteq> Separator) (rev path))"

text \<open>
  \<^verbatim>\<open>filepath.Ext\<close> scans the path from its end, stops at a separator, and returns the
  suffix that starts at the first dot it meets. \<open>ext_scan\<close> takes the part still to scan,
  reversed, and the part scanned.
\<close>

fun ext_scan :: "string \<Rightarrow> string \<Rightarrow> string" where
  "ext_scan [] suf = []"
| "ext_scan (c # rp) suf =
     (if c = Separator then []
      else if c = CHR ''.'' then c # suf
      else ext_scan rp (c # suf))"

definition filepath_Ext :: "string \<Rightarrow> string" where
  "filepath_Ext path = ext_scan (rev path) []"

text \<open>\<^verbatim>\<open>filepath.Base\<close>: the last element, trailing separators removed first.\<close>

definition filepath_Base :: "string \<Rightarrow> string" where
  "filepath_Base path =
     (if path = [] then ''.''
      else let p = last_element (rev (dropWhile (\<lambda>c. c = Separator) (rev path)))
           in if p = [] then [Separator] else p)"

text \<open>
  \<^verbatim>\<open>filepath.Clean\<close>, element by element: empty elements and \<^verbatim>\<open>.\<close> are dropped, \<^verbatim>\<open>..\<close>
  removes the element before it when there is one to remove, is dropped at the root, and
  is kept otherwise. \<open>st\<close> is the output so far, last element first.
\<close>

fun clean_elems :: "bool \<Rightarrow> string list \<Rightarrow> string list \<Rightarrow> string list" where
  "clean_elems rooted st [] = rev st"
| "clean_elems rooted st (e # es) =
     (if e = [] \<or> e = ''.'' then clean_elems rooted st es
      else if e = ''..'' then
        (case st of
           [] \<Rightarrow> if rooted then clean_elems rooted st es else clean_elems rooted (e # st) es
         | e' # st' \<Rightarrow>
             if e' = ''..'' then clean_elems rooted (e # st) es
             else clean_elems rooted st' es)
      else clean_elems rooted (e # st) es)"

definition filepath_Clean :: "string \<Rightarrow> string" where
  "filepath_Clean path =
     (if path = [] then ''.''
      else let rooted = (hd path = Separator);
               out = strings_Join (clean_elems rooted [] (split_go [Separator] [] path)) [Separator]
           in if rooted then Separator # out
              else if out = [] then ''.'' else out)"

text \<open>\<^verbatim>\<open>filepath.Dir\<close>: all but the last element, cleaned.\<close>

definition filepath_Dir :: "string \<Rightarrow> string" where
  "filepath_Dir path = filepath_Clean (take (length path - length (last_element path)) path)"

text \<open>\<^verbatim>\<open>filepath.Join\<close>: leading empty elements are ignored, the rest is joined and cleaned.\<close>

definition filepath_Join :: "string list \<Rightarrow> string" where
  "filepath_Join elem =
     (case dropWhile (\<lambda>e. e = []) elem of
        [] \<Rightarrow> []
      | es \<Rightarrow> filepath_Clean (strings_Join es [Separator]))"

subsection \<open>Package time\<close>

text \<open>
  Formatting and parsing depend on the process's time zone, which is not part of the
  package: they are parameters. \<open>Format lib layout t\<close> is \<^verbatim>\<open>t.Format(layout)\<close> and
  \<open>Parse lib layout value\<close> is \<^verbatim>\<open>time.Parse(layout, value)\<close>.
\<close>

record timelib =
  Format :: "string \<Rightarrow> instant \<Rightarrow> string"
  Parse :: "string \<Rightarrow> string \<Rightarrow> error + instant"

text \<open>
  One time library, used where a property is run on an example: the zone is UTC. Dates
  follow the proleptic Gregorian calendar, computed from the day number (days since
  1970-01-01) by era of 400 years. \<open>utc_Format\<close> knows the two layouts the package uses;
  \<open>utc_Parse\<close> accepts the form \<open>utc_Format\<close> writes for \<^verbatim>\<open>time.RFC3339\<close> and refuses
  every other string.
\<close>

definition civil_from_days :: "int \<Rightarrow> int \<times> int \<times> int" where
  "civil_from_days z0 =
     (let z = z0 + 719468;
          era = z div 146097;
          doe = z mod 146097;
          yoe = (doe - doe div 1460 + doe div 36524 - doe div 146096) div 365;
          doy = doe - (365 * yoe + yoe div 4 - yoe div 100);
          mp = (5 * doy + 2) div 153;
          d = doy - (153 * mp + 2) div 5 + 1;
          m = (if mp < 10 then mp + 3 else mp - 9);
          y = yoe + era * 400
      in (if m \<le> 2 then y + 1 else y, m, d))"

definition days_from_civil :: "int \<Rightarrow> int \<Rightarrow> int \<Rightarrow> int" where
  "days_from_civil y0 m d =
     (let y = (if m \<le> 2 then y0 - 1 else y0);
          era = y div 400;
          yoe = y mod 400;
          doy = (153 * (if 2 < m then m - 3 else m + 9) + 2) div 5 + d - 1;
          doe = yoe * 365 + yoe div 4 - yoe div 100 + doy
      in era * 146097 + doe - 719468)"

definition digit :: "int \<Rightarrow> char" where
  "digit n = ''0123456789'' ! nat (n mod 10)"

definition pad2 :: "int \<Rightarrow> string" where
  "pad2 n = [digit (n div 10), digit n]"

definition pad4 :: "int \<Rightarrow> string" where
  "pad4 n = [digit (n div 1000), digit (n div 100), digit (n div 10), digit n]"

definition utc_date :: "instant \<Rightarrow> string" where
  "utc_date t =
     (case civil_from_days (t div 86400000000000) of (y, m, d) \<Rightarrow>
        pad4 y @ ''-'' @ pad2 m @ ''-'' @ pad2 d)"

definition utc_clock :: "instant \<Rightarrow> string" where
  "utc_clock t =
     (let s = (t div 1000000000) mod 86400
      in pad2 (s div 3600) @ '':'' @ pad2 (s div 60 mod 60) @ '':'' @ pad2 (s mod 60))"

definition utc_Format :: "string \<Rightarrow> instant \<Rightarrow> string" where
  "utc_Format layout t =
     (if layout = dateFormat then utc_date t
      else if layout = rfc3339DateFormat then utc_date t @ ''T'' @ utc_clock t @ ''Z''
      else layout)"

definition digit_val :: "char \<Rightarrow> int option" where
  "digit_val c =
     (if 48 \<le> (of_char c :: nat) \<and> (of_char c :: nat) \<le> 57
      then Some (int (of_char c) - 48) else None)"

fun number :: "string \<Rightarrow> int option" where
  "number [] = Some 0"
| "number (c # cs) =
     (case (digit_val c, number cs) of
        (Some d, Some n) \<Rightarrow> Some (d * 10 ^ length cs + n)
      | _ \<Rightarrow> None)"

definition utc_Parse :: "string \<Rightarrow> string \<Rightarrow> error + instant" where
  "utc_Parse layout v =
     (if layout = rfc3339DateFormat \<and> length v = 20
         \<and> [v ! 4, v ! 7, v ! 10, v ! 13, v ! 16, v ! 19] = ''--T::Z''
      then (case (number (take 4 v), number (take 2 (drop 5 v)), number (take 2 (drop 8 v)),
                  number (take 2 (drop 11 v)), number (take 2 (drop 14 v)), number (take 2 (drop 17 v))) of
              (Some y, Some m, Some d, Some hh, Some mm, Some ss) \<Rightarrow>
                if 1 \<le> m \<and> m \<le> 12 \<and> 1 \<le> d \<and> civil_from_days (days_from_civil y m d) = (y, m, d)
                   \<and> hh < 24 \<and> mm < 60 \<and> ss < 60
                then Inr ((days_from_civil y m d * 86400 + hh * 3600 + mm * 60 + ss) * 1000000000)
                else Inl (ErrParse layout v)
            | _ \<Rightarrow> Inl (ErrParse layout v))
      else Inl (ErrParse layout v))"

definition utc :: timelib where
  "utc = \<lparr>Format = utc_Format, Parse = utc_Parse\<rparr>"

text \<open>
  \<^verbatim>\<open>filepath.Glob\<close> reads the file system: its answer for a pattern is a parameter
  \<open>glob\<close> of the functions that call it.
\<close>

type_synonym globber = "string \<Rightarrow> error + string list"

subsection \<open>What \<^verbatim>\<open>filepath.Glob\<close> answers\<close>

text \<open>
  \<^verbatim>\<open>filepath.Glob\<close> belongs to the Go library (file \<^verbatim>\<open>path/filepath/match.go\<close>). A pattern
  with a metacharacter is cut by \<^verbatim>\<open>Split\<close> after its last separator into a directory and a
  file pattern; \<^verbatim>\<open>cleanGlobPath\<close> drops the separator that ends the directory. When the
  directory holds no metacharacter, the names of the directory are read, and the answer
  holds \<^verbatim>\<open>Join(dir, n)\<close> for every name \<open>n\<close> that \<^verbatim>\<open>Match\<close> accepts for the file pattern.
  \<^verbatim>\<open>hasMeta\<close> is \<^verbatim>\<open>strings.ContainsAny(path, `*?[\`)\<close> on Unix.
\<close>

definition hasMeta :: "string \<Rightarrow> bool" where
  "hasMeta path = (\<exists>c \<in> set path. c \<in> {CHR ''*'', CHR ''?'', CHR ''['', CHR 0x5C})"

text \<open>\<^verbatim>\<open>Split\<close> returns \<^verbatim>\<open>path[:i+1], path[i+1:]\<close> for the index \<open>i\<close> of the last separator.\<close>

definition filepath_Split :: "string \<Rightarrow> string \<times> string" where
  "filepath_Split path =
     (take (length path - length (last_element path)) path, last_element path)"

text \<open>
  \<^verbatim>\<open>cleanGlobPath\<close>: the empty directory is \<^verbatim>\<open>.\<close>, the root stays, and any other directory
  loses its last byte, the separator.
\<close>

definition cleanGlobPath :: "string \<Rightarrow> string" where
  "cleanGlobPath path =
     (if path = [] then ''.''
      else if path = [Separator] then path
      else butlast path)"

text \<open>
  A name read from a directory (\<^verbatim>\<open>Readdirnames\<close>) is not empty, holds no separator and is
  neither \<^verbatim>\<open>.\<close> nor \<^verbatim>\<open>..\<close>.
\<close>

definition dir_entry :: "string \<Rightarrow> bool" where
  "dir_entry n = (n \<noteq> [] \<and> Separator \<notin> set n \<and> n \<noteq> ''.'' \<and> n \<noteq> ''..'')"

text \<open>
  \<^verbatim>\<open>Match\<close> for a file pattern \<open>e*suf\<close> whose parts \<open>e\<close> and \<open>suf\<close> hold no metacharacter,
  on a name without separator: the star stands for any bytes, so the name begins with
  \<open>e\<close>, ends with \<open>suf\<close>, and is long enough for both.
\<close>

definition star_match :: "string \<Rightarrow> string \<Rightarrow> string \<Rightarrow> bool" where
  "star_match e suf n =
     (length e + length suf \<le> length n \<and> take (length e) n = e
      \<and> drop (length n - length suf) n = suf)"

text \<open>
  What \<^verbatim>\<open>filepath.Glob\<close> may list for the pattern \<open>pre*suf\<close>: every path is \<^verbatim>\<open>Join(dir, n)\<close>
  for a name \<open>n\<close> of the directory that matches; \<open>n\<close> is then the last element of the
  path (lemma \<open>star_listing_iff\<close>), which makes the test one that runs.
\<close>

definition star_listing :: "string \<Rightarrow> string \<Rightarrow> string list \<Rightarrow> bool" where
  "star_listing pre suf names =
     (\<forall>p \<in> set names.
        dir_entry (last_element p)
        \<and> star_match (snd (filepath_Split pre)) suf (last_element p)
        \<and> p = filepath_Join [cleanGlobPath (fst (filepath_Split pre)), last_element p])"

text \<open>
  A \<open>glob\<close> that answers as \<^verbatim>\<open>filepath.Glob\<close> does on the patterns with one star, no other
  metacharacter, and no separator after the star.
\<close>

definition Glob_contract :: "globber \<Rightarrow> bool" where
  "Glob_contract glob =
     (\<forall>pre suf names.
        \<not> hasMeta pre \<and> \<not> hasMeta suf \<and> Separator \<notin> set suf
        \<and> glob (pre @ ''*'' @ suf) = Inr names
        \<longrightarrow> star_listing pre suf names)"

section \<open>The rotation rules\<close>

text \<open>
  The structs of the package. \<open>SizeLimitRotateRule\<close> embeds \<open>DailyRotateRule\<close>: the
  record extends it.
\<close>

record DailyRotateRule =
  rotatedTime :: string
  filename :: string
  delimiter :: string
  days :: go_int
  gzip :: bool

record SizeLimitRotateRule = DailyRotateRule +
  maxSize :: go_int
  maxBackups :: go_int

text \<open>
  The functions that read the clock take the instant \<^verbatim>\<open>time.Now()\<close> returned as the
  argument \<open>now\<close>.
\<close>

definition getNowDate :: "timelib \<Rightarrow> instant \<Rightarrow> string" where
  "getNowDate lib now = Format lib dateFormat now"

definition getNowDateInRFC3339Format :: "timelib \<Rightarrow> instant \<Rightarrow> string" where
  "getNowDateInRFC3339Format lib now =
     Format lib rfc3339DateFormat (time_Add now ((- 24 * 60 + 5) * Minute))"

text \<open>
  The duration both rules subtract from the clock for a retention of \<open>d\<close> days,
  \<^verbatim>\<open>-time.Hour * time.Duration(hoursPerDay*r.days)\<close>: two wrapping multiplications.
\<close>

definition keep_duration :: "go_int \<Rightarrow> duration" where
  "keep_duration d = - Hour * (hoursPerDay * d)"

subsection \<open>DailyRotateRule\<close>

definition DefaultRotateRule ::
  "timelib \<Rightarrow> instant \<Rightarrow> string \<Rightarrow> string \<Rightarrow> go_int \<Rightarrow> bool \<Rightarrow> DailyRotateRule" where
  "DefaultRotateRule lib now fname delim ds gz =
     \<lparr>rotatedTime = getNowDate lib now, filename = fname, delimiter = delim, days = ds, gzip = gz\<rparr>"

definition Daily_BackupFileName :: "timelib \<Rightarrow> instant \<Rightarrow> DailyRotateRule \<Rightarrow> string" where
  "Daily_BackupFileName lib now r = filename r @ delimiter r @ getNowDate lib now"

definition Daily_MarkRotated :: "timelib \<Rightarrow> instant \<Rightarrow> DailyRotateRule \<Rightarrow> DailyRotateRule" where
  "Daily_MarkRotated lib now r = r\<lparr>rotatedTime := getNowDate lib now\<rparr>"

text \<open>The pattern handed to \<^verbatim>\<open>filepath.Glob\<close> and the name \<^verbatim>\<open>boundaryFile\<close> of the loop.\<close>

definition Daily_pattern :: "DailyRotateRule \<Rightarrow> string" where
  "Daily_pattern r =
     (if gzip r then filename r @ delimiter r @ ''*'' @ gzipExt
      else filename r @ delimiter r @ ''*'')"

definition Daily_boundaryFile :: "timelib \<Rightarrow> instant \<Rightarrow> DailyRotateRule \<Rightarrow> string" where
  "Daily_boundaryFile lib now r =
     (let boundary = Format lib dateFormat (time_Add now (keep_duration (days r)));
          buf = filename r @ delimiter r @ boundary
      in if gzip r then buf @ gzipExt else buf)"

text \<open>
  \<^verbatim>\<open>OutdatedFiles\<close>: \<^verbatim>\<open>nil\<close> is the empty list. (The message this function and the one of
  the size rule log when the pattern is refused goes to the logging facility, and the
  line the latter prints to the standard output; neither is part of the model.)
\<close>

definition Daily_OutdatedFiles ::
  "timelib \<Rightarrow> globber \<Rightarrow> instant \<Rightarrow> DailyRotateRule \<Rightarrow> string list" where
  "Daily_OutdatedFiles lib glob now r =
     (if days r \<le>s 0 then []
      else case glob (Daily_pattern r) of
             Inl err \<Rightarrow> []
           | Inr files \<Rightarrow> filter (\<lambda>file. file < Daily_boundaryFile lib now r) files)"

definition Daily_ShallRotate ::
  "timelib \<Rightarrow> instant \<Rightarrow> DailyRotateRule \<Rightarrow> go_int \<Rightarrow> go_int \<Rightarrow> bool" where
  "Daily_ShallRotate lib now r currentSize writeLen =
     (0 < length (rotatedTime r) \<and> getNowDate lib now \<noteq> rotatedTime r)"

subsection \<open>SizeLimitRotateRule\<close>

definition NewSizeLimitRotateRule ::
  "timelib \<Rightarrow> instant \<Rightarrow> string \<Rightarrow> string \<Rightarrow> go_int \<Rightarrow> go_int \<Rightarrow> go_int \<Rightarrow> bool
     \<Rightarrow> SizeLimitRotateRule" where
  "NewSizeLimitRotateRule lib now fname delim ds msize mbackups gz =
     \<lparr>rotatedTime = getNowDateInRFC3339Format lib now, filename = fname, delimiter = delim,
      days = ds, gzip = gz, maxSize = msize, maxBackups = mbackups\<rparr>"

definition SizeLimit_ShallRotate :: "SizeLimitRotateRule \<Rightarrow> go_int \<Rightarrow> go_int \<Rightarrow> bool" where
  "SizeLimit_ShallRotate r currentSize writeLen =
     (0 <s maxSize r \<and> maxSize r * megabyte <s currentSize + writeLen)"

text \<open>
  \<^verbatim>\<open>parseFilename\<close> ignores its argument and takes the rule's file name apart. The slice
  \<^verbatim>\<open>logname[:len(logname)-len(ext)]\<close> is in range for every path (lemma
  \<open>Ext_shorter_than_Base\<close> below).
\<close>

definition parseFilename ::
  "SizeLimitRotateRule \<Rightarrow> string \<Rightarrow> string \<times> string \<times> string \<times> string" where
  "parseFilename r file =
     (let dir = filepath_Dir (filename r);
          logname = filepath_Base (filename r);
          ext = filepath_Ext (filename r);
          prefix = take (length logname - length ext) logname
      in (dir, logname, ext, prefix))"

definition SizeLimit_BackupFileName :: "timelib \<Rightarrow> instant \<Rightarrow> SizeLimitRotateRule \<Rightarrow> string" where
  "SizeLimit_BackupFileName lib now r =
     (let dir = filepath_Dir (filename r) in
      case parseFilename r (filename r) of (_, _, ext, prefix) \<Rightarrow>
        let timestamp = getNowDateInRFC3339Format lib now
        in filepath_Join [dir, prefix @ delimiter r @ timestamp @ ext])"

definition SizeLimit_MarkRotated ::
  "timelib \<Rightarrow> instant \<Rightarrow> SizeLimitRotateRule \<Rightarrow> SizeLimitRotateRule" where
  "SizeLimit_MarkRotated lib now r = r\<lparr>rotatedTime := getNowDateInRFC3339Format lib now\<rparr>"

text \<open>The pattern handed to \<^verbatim>\<open>filepath.Glob\<close> and the name \<^verbatim>\<open>bf\<close> of the age test.\<close>

definition SizeLimit_pattern :: "SizeLimitRotateRule \<Rightarrow> string" where
  "SizeLimit_pattern r =
     (case parseFilename r (filename r) of (dir, _, ext, prefix) \<Rightarrow>
        if gzip r then dir @ [Separator] @ prefix @ delimiter r @ ''*'' @ ext @ gzipExt
        else dir @ [Separator] @ prefix @ delimiter r @ ''*'' @ ext)"

definition SizeLimit_boundaryFile :: "timelib \<Rightarrow> instant \<Rightarrow> SizeLimitRotateRule \<Rightarrow> string" where
  "SizeLimit_boundaryFile lib now r =
     (case parseFilename r (filename r) of (dir, _, ext, prefix) \<Rightarrow>
        let boundary = Format lib rfc3339DateFormat (time_Add now (keep_duration (days r)));
            bf = filepath_Join [dir, prefix @ delimiter r @ boundary @ ext]
        in if gzip r then bf @ gzipExt else bf)"

text \<open>
  \<^verbatim>\<open>OutdatedFiles\<close>. \<open>outdated1\<close> are the keys the count test puts into the map
  \<^verbatim>\<open>outdated\<close>, \<open>files'\<close> is \<^verbatim>\<open>files\<close> after it, \<open>outdated2\<close> are the keys of the age test,
  whose loop stops at the first name that is not below \<open>bf\<close>. Go lists the keys of the map
  in an order it does not specify; the model lists each key once, in the order of
  insertion, and the theorems below speak of the set of the result only.
\<close>

definition SizeLimit_OutdatedFiles ::
  "timelib \<Rightarrow> globber \<Rightarrow> instant \<Rightarrow> SizeLimitRotateRule \<Rightarrow> string list" where
  "SizeLimit_OutdatedFiles lib glob now r =
     (case glob (SizeLimit_pattern r) of
        Inl err \<Rightarrow> []
      | Inr globbed \<Rightarrow>
          let files = sort globbed;
              over = (0 <s maxBackups r \<and> sint (maxBackups r) < int (length files));
              cut = length files - nat (sint (maxBackups r));
              outdated1 = (if over then take cut files else []);
              files' = (if over then drop cut files else files);
              outdated2 = (if 0 <s days r
                           then takeWhile (\<lambda>f. f < SizeLimit_boundaryFile lib now r) files'
                           else [])
          in remdups (outdated1 @ outdated2))"

text \<open>
  \<^verbatim>\<open>parseBackupTime\<close>. \<open>backup_parts\<close> is the slice \<^verbatim>\<open>s\<close> the function computes
  (\<open>None\<close> when the first slice expression panics: compression is on and the name is
  shorter than \<^verbatim>\<open>.gz\<close>), with the name it was split from. The variable \<^verbatim>\<open>t\<close> is declared
  and never assigned: it holds the empty string when the parser is called.
\<close>

definition backup_parts :: "SizeLimitRotateRule \<Rightarrow> string \<Rightarrow> (string \<times> string list) option" where
  "backup_parts r file =
     (if gzip r \<and> length file < length gzipExt then None
      else let file1 = (if gzip r then take (length file - length gzipExt) file else file);
               file2 = take (length file1 - length (filepath_Ext file1)) file1
           in Some (file2, strings_Split file2 (delimiter r)))"

definition parseBackupTime :: "timelib \<Rightarrow> SizeLimitRotateRule \<Rightarrow> string \<Rightarrow> error + instant" where
  "parseBackupTime lib r file =
     (case backup_parts r file of
        None \<Rightarrow> Inl PanicSliceBounds
      | Some (file2, s) \<Rightarrow>
          let t = [] in
          if length s \<noteq> 2 then Inl (ErrInvalidBackup file2)
          else case Parse lib rfc3339DateFormat t of
                 Inl err \<Rightarrow> Inl err
               | Inr tt \<Rightarrow> Inr tt)"

section \<open>The world of the logger\<close>

text \<open>
  What the logger acts on is explicit state: the regular files by path, the clock, the
  calls made on the file system (oldest first), the lines written by the standard
  logger of package \<^verbatim>\<open>log\<close> (to the standard error stream), and the goroutines launched
  by \<^verbatim>\<open>postRotate\<close> (each with the file it was launched for; they run detached and are not
  executed here). \<open>fault\<close> is the environment's choice of the calls that fail, and with
  which error. The clock is read by \<^verbatim>\<open>time.Now()\<close>: reading number \<open>n\<close> returns
  \<open>clock w n\<close>.

  An open \<^verbatim>\<open>*os.File\<close> is the path it was opened at (\<open>None\<close> is \<^verbatim>\<open>nil\<close>): the logger is the
  only process that renames or removes the file while it holds it open.
\<close>

datatype io_call =
    CallStat string
  | CallRename string string
  | CallCreate string
  | CallCloseOnExec string
  | CallWrite string string
  | CallSync string
  | CallClose string

datatype log_entry = LogError error | LogText string

record world =
  files :: "string \<rightharpoonup> string"
  fault :: "io_call \<Rightarrow> error option"
  clock :: "nat \<Rightarrow> instant"
  ticks :: nat
  calls :: "io_call list"
  stderr :: "log_entry list"
  spawned :: "string list"

definition called :: "io_call \<Rightarrow> world \<Rightarrow> world" where
  "called c w = w\<lparr>calls := calls w @ [c]\<rparr>"

definition time_Now :: "world \<Rightarrow> instant \<times> world" where
  "time_Now w = (clock w (ticks w), w\<lparr>ticks := Suc (ticks w)\<rparr>)"

definition log_Println :: "log_entry \<Rightarrow> world \<Rightarrow> world" where
  "log_Println e w = w\<lparr>stderr := stderr w @ [e]\<rparr>"

definition os_Stat :: "string \<Rightarrow> world \<Rightarrow> error option \<times> world" where
  "os_Stat name w =
     (case fault w (CallStat name) of
        Some e \<Rightarrow> (Some e, called (CallStat name) w)
      | None \<Rightarrow> (if files w name = None then Some ErrNotExist else None,
                 called (CallStat name) w))"

definition os_Rename :: "string \<Rightarrow> string \<Rightarrow> world \<Rightarrow> error option \<times> world" where
  "os_Rename old new w =
     (case fault w (CallRename old new) of
        Some e \<Rightarrow> (Some e, called (CallRename old new) w)
      | None \<Rightarrow>
          (case files w old of
             None \<Rightarrow> (Some ErrNotExist, called (CallRename old new) w)
           | Some content \<Rightarrow>
               (None, called (CallRename old new)
                        (w\<lparr>files := (files w)(old := None, new \<mapsto> content)\<rparr>))))"

text \<open>\<^verbatim>\<open>os.Create\<close> creates the file or truncates it; on an error the file returned is \<^verbatim>\<open>nil\<close>.\<close>

definition os_Create :: "string \<Rightarrow> world \<Rightarrow> (string option \<times> error option) \<times> world" where
  "os_Create name w =
     (case fault w (CallCreate name) of
        Some e \<Rightarrow> ((None, Some e), called (CallCreate name) w)
      | None \<Rightarrow> ((Some name, None),
                 called (CallCreate name) (w\<lparr>files := (files w)(name \<mapsto> [])\<rparr>)))"

definition fs_CloseOnExec :: "string option \<Rightarrow> world \<Rightarrow> world" where
  "fs_CloseOnExec f w = (case f of None \<Rightarrow> w | Some h \<Rightarrow> called (CallCloseOnExec h) w)"

text \<open>The methods of \<^verbatim>\<open>*os.File\<close> return \<^verbatim>\<open>os.ErrInvalid\<close> on \<^verbatim>\<open>nil\<close>, without a system call.\<close>

definition file_Close :: "string option \<Rightarrow> world \<Rightarrow> error option \<times> world" where
  "file_Close f w =
     (case f of
        None \<Rightarrow> (Some ErrInvalid, w)
      | Some h \<Rightarrow> (fault w (CallClose h), called (CallClose h) w))"

definition file_Sync :: "string option \<Rightarrow> world \<Rightarrow> error option \<times> world" where
  "file_Sync f w =
     (case f of
        None \<Rightarrow> (Some ErrInvalid, w)
      | Some h \<Rightarrow> (fault w (CallSync h), called (CallSync h) w))"

text \<open>A write that succeeds appends to the file; one that fails leaves it as it is.\<close>

definition file_Write :: "string option \<Rightarrow> string \<Rightarrow> world \<Rightarrow> error option \<times> world" where
  "file_Write f b w =
     (case f of
        None \<Rightarrow> (Some ErrInvalid, w)
      | Some h \<Rightarrow>
          (case fault w (CallWrite h b) of
             Some e \<Rightarrow> (Some e, called (CallWrite h b) w)
           | None \<Rightarrow>
               (None, called (CallWrite h b)
                        (case files w h of
                           None \<Rightarrow> w
                         | Some content \<Rightarrow> w\<lparr>files := (files w)(h \<mapsto> content @ b)\<rparr>))))"

subsection \<open>The interface RotateRule\<close>

text \<open>
  A call through the interface runs the method of the rule's variant; the methods that
  call \<^verbatim>\<open>time.Now()\<close> read the clock of the world, once.
\<close>

datatype RotateRule = Daily DailyRotateRule | SizeLimit SizeLimitRotateRule

definition BackupFileName :: "timelib \<Rightarrow> RotateRule \<Rightarrow> world \<Rightarrow> string \<times> world" where
  "BackupFileName lib rl w =
     (case time_Now w of (now, w') \<Rightarrow>
        (case rl of Daily r \<Rightarrow> Daily_BackupFileName lib now r
                  | SizeLimit r \<Rightarrow> SizeLimit_BackupFileName lib now r, w'))"

definition MarkRotated :: "timelib \<Rightarrow> RotateRule \<Rightarrow> world \<Rightarrow> RotateRule \<times> world" where
  "MarkRotated lib rl w =
     (case time_Now w of (now, w') \<Rightarrow>
        (case rl of Daily r \<Rightarrow> Daily (Daily_MarkRotated lib now r)
                  | SizeLimit r \<Rightarrow> SizeLimit (SizeLimit_MarkRotated lib now r), w'))"

definition ShallRotate ::
  "timelib \<Rightarrow> RotateRule \<Rightarrow> go_int \<Rightarrow> go_int \<Rightarrow> world \<Rightarrow> bool \<times> world" where
  "ShallRotate lib rl currentSize writeLen w =
     (case rl of
        Daily r \<Rightarrow>
          (case time_Now w of (now, w') \<Rightarrow> (Daily_ShallRotate lib now r currentSize writeLen, w'))
      | SizeLimit r \<Rightarrow> (SizeLimit_ShallRotate r currentSize writeLen, w))"

section \<open>The rotating logger\<close>

text \<open>
  The struct \<^verbatim>\<open>RotateLogger\<close>. Its field \<^verbatim>\<open>filename\<close> is \<open>filename_l\<close> here (the rules have
  a field of that name). \<open>channel\<close> holds the records queued, oldest first; its capacity is
  \<open>bufferSize\<close>. \<open>done_closed\<close> says that the channel \<^verbatim>\<open>done\<close> is closed, \<open>running\<close> that the
  worker goroutine counted by \<^verbatim>\<open>waitGroup\<close> has not returned, \<open>closeOnce\<close> that
  \<^verbatim>\<open>closeOnce\<close> has run its function.
\<close>

record RotateLogger =
  filename_l :: string
  backup :: string
  fp :: "string option"
  channel :: "string list"
  done_closed :: bool
  rule :: RotateRule
  compress :: bool
  running :: bool
  closeOnce :: bool
  currentSize :: go_int

definition getBackupFilename :: "timelib \<Rightarrow> RotateLogger \<Rightarrow> world \<Rightarrow> string \<times> world" where
  "getBackupFilename lib l w =
     (if length (backup l) = 0 then BackupFileName lib (rule l) w else (backup l, w))"

text \<open>\<^verbatim>\<open>postRotate\<close> launches a goroutine for the file and returns.\<close>

definition postRotate :: "string \<Rightarrow> world \<Rightarrow> world" where
  "postRotate file w = w\<lparr>spawned := spawned w @ [file]\<rparr>"

text \<open>
  \<^verbatim>\<open>rotate\<close> (\<open>rotate_file\<close> here: the list library has a \<open>rotate\<close>), in the order of
  the source: close the handle, test and rename the file, compute the next backup name,
  create the file. Each \<^verbatim>\<open>return err\<close> of the source is a branch that returns here.
\<close>

definition rotate_file ::
  "timelib \<Rightarrow> RotateLogger \<Rightarrow> world \<Rightarrow> error option \<times> RotateLogger \<times> world" where
  "rotate_file lib l w =
     (case (case fp l of
              None \<Rightarrow> (None, l, w)
            | Some h \<Rightarrow> (case file_Close (fp l) w of (err, w') \<Rightarrow> (err, l\<lparr>fp := None\<rparr>, w')))
      of (cerr, l1, w1) \<Rightarrow>
        if cerr \<noteq> None then (cerr, l1, w1)
        else case os_Stat (filename_l l1) w1 of (serr, w2) \<Rightarrow>
          (case (if serr = None \<and> 0 < length (backup l1) then
                   (case getBackupFilename lib l1 w2 of (backupFilename, w3) \<Rightarrow>
                      (case os_Rename (filename_l l1) backupFilename w3 of (rerr, w4) \<Rightarrow>
                         if rerr \<noteq> None then (rerr, w4)
                         else (None, postRotate backupFilename w4)))
                 else (None, w2))
           of (rerr, w5) \<Rightarrow>
             if rerr \<noteq> None then (rerr, l1, w5)
             else case BackupFileName lib (rule l1) w5 of (bn, w6) \<Rightarrow>
               (case os_Create (filename_l l1) w6 of ((f, err), w7) \<Rightarrow>
                  (err, l1\<lparr>backup := bn, fp := f\<rparr>,
                   if err = None then fs_CloseOnExec f w7 else w7))))"

text \<open>
  \<^verbatim>\<open>write\<close>, the step the worker runs for each record (\<open>write_step\<close>: Isabelle reserves
  the name). The result of \<^verbatim>\<open>l.fp.Write(v)\<close> is ignored by the source.
\<close>

definition write_step ::
  "timelib \<Rightarrow> RotateLogger \<Rightarrow> world \<Rightarrow> string \<Rightarrow> RotateLogger \<times> world" where
  "write_step lib l w v =
     (case ShallRotate lib (rule l) (currentSize l) (len v) w of (shall, w0) \<Rightarrow>
        (case (if shall then
                 (case rotate_file lib l w0 of (err, l', w') \<Rightarrow>
                    (case err of
                       Some e \<Rightarrow> (l', log_Println (LogError e) w')
                     | None \<Rightarrow>
                         (case MarkRotated lib (rule l') w' of (rl, w'') \<Rightarrow>
                            (l'\<lparr>rule := rl, currentSize := 0\<rparr>, w''))))
               else (l, w0))
         of (l1, w1) \<Rightarrow>
           (case fp l1 of
              None \<Rightarrow> (l1, w1)
            | Some h \<Rightarrow>
                (case file_Write (fp l1) v w1 of (_, w2) \<Rightarrow>
                   (l1\<lparr>currentSize := currentSize l1 + len v\<rparr>, w2)))))"

text \<open>
  The worker of \<^verbatim>\<open>startWorker\<close> loops on a \<^verbatim>\<open>select\<close> over the queue and \<^verbatim>\<open>done\<close>. Once
  \<^verbatim>\<open>done\<close> is closed, it returns as soon as \<^verbatim>\<open>select\<close> picks that case; while records are
  queued \<^verbatim>\<open>select\<close> may pick either case. \<open>k\<close> bounds the number of times the queue is picked
  before: the worker writes the first \<open>k\<close> records queued (all of them when fewer are
  queued) and returns.
\<close>

fun worker_drain ::
  "timelib \<Rightarrow> nat \<Rightarrow> RotateLogger \<Rightarrow> world \<Rightarrow> RotateLogger \<times> world" where
  "worker_drain lib 0 l w = (l\<lparr>running := False\<rparr>, w)"
| "worker_drain lib (Suc k) l w =
     (case channel l of
        [] \<Rightarrow> (l\<lparr>running := False\<rparr>, w)
      | event # queued \<Rightarrow>
          (case write_step lib (l\<lparr>channel := queued\<rparr>) w event of (l', w') \<Rightarrow>
             worker_drain lib k l' w'))"

text \<open>
  \<^verbatim>\<open>Close\<close>. The function handed to \<^verbatim>\<open>closeOnce.Do\<close> runs in the first call only; \<^verbatim>\<open>err\<close> is a
  local variable of each call, \<^verbatim>\<open>nil\<close> until that function assigns it. \<open>k\<close> is the choice
  of the worker's \<^verbatim>\<open>select\<close> while \<^verbatim>\<open>waitGroup.Wait()\<close> waits for it.
\<close>

definition Close ::
  "timelib \<Rightarrow> nat \<Rightarrow> RotateLogger \<Rightarrow> world \<Rightarrow> error option \<times> RotateLogger \<times> world" where
  "Close lib k l w =
     (if closeOnce l then (None, l, w)
      else case worker_drain lib k (l\<lparr>done_closed := True\<rparr>) w of (l1, w1) \<Rightarrow>
        let l2 = l1\<lparr>closeOnce := True\<rparr> in
        (case file_Sync (fp l2) w1 of (serr, w2) \<Rightarrow>
           if serr \<noteq> None then (serr, l2, w2)
           else case file_Close (fp l2) w2 of (cerr, w3) \<Rightarrow> (cerr, l2, w3)))"

text \<open>
  \<^verbatim>\<open>Write\<close> is one \<^verbatim>\<open>select\<close> over two communications: the send on the queue, which can
  proceed when the queue has room, and the receive from \<^verbatim>\<open>done\<close>, which can proceed when
  \<^verbatim>\<open>done\<close> is closed. Go picks one of those that can proceed, at random. \<open>Write\<close> lists the
  outcomes the call can have: the values returned, the logger and the world after it.
  When the list is empty the call blocks.
\<close>

definition Write ::
  "RotateLogger \<Rightarrow> world \<Rightarrow> string \<Rightarrow> ((go_int \<times> error option) \<times> RotateLogger \<times> world) list" where
  "Write l w data =
     (if length (channel l) < bufferSize
      then [((len data, None), l\<lparr>channel := channel l @ [data]\<rparr>, w)] else [])
     @ (if done_closed l
        then [((0, Some ErrLogFileClosed), l, log_Println (LogText data) w)] else [])"

section \<open>Values for the examples\<close>

text \<open>
  A size rule with a budget of 1 MB that keeps two backups, and a daily rule that keeps
  three days, as their constructors build them.
\<close>

definition sized_example :: SizeLimitRotateRule where
  "sized_example =
     \<lparr>rotatedTime = ''2024-05-16T12:05:00Z'', filename = ''logs/app.log'', delimiter = ''-'',
      days = 0, gzip = False, maxSize = 1, maxBackups = 2\<rparr>"

definition daily_example :: DailyRotateRule where
  "daily_example =
     \<lparr>rotatedTime = ''2024-05-10'', filename = ''app.log'', delimiter = ''-'', days = 3, gzip = False\<rparr>"

text \<open>The same size rule with the delimiter \<^verbatim>\<open>_\<close>, and the daily rule with an empty one.\<close>

definition underscore_example :: SizeLimitRotateRule where
  "underscore_example = sized_example\<lparr>delimiter := ''_''\<rparr>"

definition nodelim_example :: DailyRotateRule where
  "nodelim_example = daily_example\<lparr>delimiter := []\<rparr>"

text \<open>The nanoseconds of a day.\<close>

definition day_ns :: int where
  "day_ns = 86400000000000"

text \<open>Five backups of the size rule's file as \<^verbatim>\<open>filepath.Glob\<close> may list them.\<close>

definition five_backups :: "string list" where
  "five_backups =
     [''logs/app-2024-05-14T09:00:00Z.log'', ''logs/app-2024-05-11T09:00:00Z.log'',
      ''logs/app-2024-05-15T09:00:00Z.log'', ''logs/app-2024-05-12T09:00:00Z.log'',
      ''logs/app-2024-05-13T09:00:00Z.log'']"

text \<open>
  A file system for the examples: \<^verbatim>\<open>filepath.Glob\<close> lists \<open>names\<close> for the pattern \<open>pat\<close> and
  nothing for any other pattern.
\<close>

definition glob_lists :: "string \<Rightarrow> string list \<Rightarrow> globber" where
  "glob_lists pat names p = (if p = pat then Inr names else Inr [])"

text \<open>
  The shift of \<^verbatim>\<open>getNowDateInRFC3339Format\<close>, \<^verbatim>\<open>(-24*60 + 5) * time.Minute\<close>, in nanoseconds:
  1435 minutes, five minutes less than a day.
\<close>

definition shift_ns :: int where
  "shift_ns = 1435 * 60000000000"

text \<open>
  The name a backup of the size rule has when the instant written into it is \<open>t\<close>, for
  stating which instant a name carries.
\<close>

definition SizeLimit_name_for :: "timelib \<Rightarrow> SizeLimitRotateRule \<Rightarrow> instant \<Rightarrow> string" where
  "SizeLimit_name_for lib r t =
     (case parseFilename r (filename r) of (dir, _, ext, prefix) \<Rightarrow>
        filepath_Join [dir, prefix @ delimiter r @ Format lib rfc3339DateFormat t @ ext])"

text \<open>The size rule that keeps backups for one day.\<close>

definition one_day_example :: SizeLimitRotateRule where
  "one_day_example = sized_example\<lparr>days := 1\<rparr>"

text \<open>
  A world in which no call fails, holding the log file; the same world with a failing
  \<^verbatim>\<open>Sync\<close>, and with a failing \<^verbatim>\<open>Rename\<close>; and a logger as \<^verbatim>\<open>NewLogger\<close> leaves it, open on
  that file, after one record of twelve bytes.
\<close>

definition quiet_world :: world where
  "quiet_world =
     \<lparr>files = [''logs/app.log'' \<mapsto> ''first record''], fault = (\<lambda>c. None),
      clock = (\<lambda>n. 1715947200000000000), ticks = 0, calls = [], stderr = [], spawned = []\<rparr>"

definition sync_fails_world :: world where
  "sync_fails_world =
     quiet_world\<lparr>fault := (\<lambda>c. if c = CallSync ''logs/app.log'' then Some (ErrIO ''sync'') else None)\<rparr>"

definition rename_fails_world :: world where
  "rename_fails_world =
     quiet_world\<lparr>fault := (\<lambda>c. if c = CallRename ''logs/app.log'' ''logs/app-2024-05-16T12:05:00Z.log''
                                 then Some (ErrIO ''rename'') else None)\<rparr>"

definition open_logger :: RotateLogger where
  "open_logger =
     \<lparr>filename_l = ''logs/app.log'', backup = ''logs/app-2024-05-16T12:05:00Z.log'',
      fp = Some ''logs/app.log'', channel = [], done_closed = False, rule = SizeLimit sized_example,
      compress = False, running = True, closeOnce = False, currentSize = 12\<rparr>"

text \<open>
  The logger after 600 KB were written with a budget of 1 MB, and the world that holds
  those 600 KB.
\<close>

definition full_logger :: RotateLogger where
  "full_logger = open_logger\<lparr>currentSize := 614400\<rparr>"

definition full_world :: world where
  "full_world = quiet_world\<lparr>files := [''logs/app.log'' \<mapsto> replicate 614400 CHR ''a'']\<rparr>"

section \<open>Properties\<close>

subsection \<open>Arithmetic of Go's integers\<close>

text \<open>An addition or a multiplication whose exact result fits 64 bits does not wrap.\<close>

lemma sint_add_exact:
  fixes a b :: go_int
  assumes "- (2 ^ 63) \<le> sint a + sint b" "sint a + sint b < 2 ^ 63"
  shows "sint (a + b) = sint a + sint b"
  using assms by (simp add: sint_word_ariths signed_take_bit_int_eq_self)

lemma sint_mult_exact:
  fixes a b :: go_int
  assumes "- (2 ^ 63) \<le> sint a * sint b" "sint a * sint b < 2 ^ 63"
  shows "sint (a * b) = sint a * sint b"
  using assms by (simp add: sint_word_ariths signed_take_bit_int_eq_self)

lemma sint_megabyte: "sint megabyte = 1048576"
  by (simp add: megabyte_def)

subsection \<open>The slice of \<^verbatim>\<open>parseFilename\<close>\<close>

text \<open>The extension of a path is never longer than its base name.\<close>

lemma ext_scan_length:
  "length (ext_scan rp suf) \<le> length (takeWhile (\<lambda>c. c \<noteq> Separator) rp) + length suf"
  by (induction rp suf rule: ext_scan.induct) auto

lemma Ext_shorter_than_Base: "length (filepath_Ext path) \<le> length (filepath_Base path)"
proof (cases "rev path")
  case Nil
  then show ?thesis by (simp add: filepath_Ext_def filepath_Base_def)
next
  case (Cons c rp)
  have bound: "length (filepath_Ext path) \<le> length (last_element path)"
    using ext_scan_length [of "rev path" "[]"] by (simp add: filepath_Ext_def last_element_def)
  show ?thesis
  proof (cases "c = Separator")
    case True
    then have "filepath_Ext path = []"
      using Cons by (simp add: filepath_Ext_def)
    then show ?thesis by simp
  next
    case False
    then have "dropWhile (\<lambda>c. c = Separator) (rev path) = rev path"
      using Cons by simp
    moreover have "last_element path \<noteq> []"
      using Cons False by (simp add: last_element_def)
    moreover have "path \<noteq> []"
      using Cons by auto
    ultimately have "filepath_Base path = last_element path"
      by (simp add: filepath_Base_def Let_def)
    with bound show ?thesis by simp
  qed
qed

subsection \<open>The size test\<close>

lemma ShallRotate_words:
  "SizeLimit_ShallRotate r cur n \<longleftrightarrow> 0 <s maxSize r \<and> maxSize r * 1048576 <s cur + n"
  by (simp add: SizeLimit_ShallRotate_def megabyte_def)

lemma ShallRotate_no_budget: "maxSize r = 0 \<Longrightarrow> \<not> SizeLimit_ShallRotate r cur n"
  by (simp add: SizeLimit_ShallRotate_def)

lemma ShallRotate_exact:
  assumes "- (2 ^ 63) \<le> sint cur + sint n" "sint cur + sint n < 2 ^ 63"
    and "sint (maxSize r) < 2 ^ 43"
  shows "SizeLimit_ShallRotate r cur n \<longleftrightarrow>
         0 < sint (maxSize r) \<and> sint (maxSize r) * 1048576 < sint cur + sint n"
proof (cases "0 < sint (maxSize r)")
  case False
  then show ?thesis by (simp add: SizeLimit_ShallRotate_def word_sless_alt)
next
  case True
  have "sint (maxSize r) * sint megabyte < 2 ^ 43 * 1048576"
    using assms(3) True by (simp add: sint_megabyte)
  then have "sint (maxSize r * megabyte) = sint (maxSize r) * 1048576"
    using True sint_mult_exact[of "maxSize r" megabyte] by (simp add: sint_megabyte)
  then show ?thesis
    using True assms(1,2) by (simp add: SizeLimit_ShallRotate_def word_sless_alt sint_add_exact)
qed

text \<open>
  Claim C2. For all \<open>cur\<close> and \<open>n\<close>, \<^verbatim>\<open>SizeLimitRotateRule.ShallRotate(cur, n)\<close> is true exactly
  when \<^verbatim>\<open>maxSize > 0\<close> and \<^verbatim>\<open>maxSize*1048576 < cur+n\<close>, in the arithmetic of Go's \<^verbatim>\<open>int\<close>; it is
  false for all \<open>cur\<close> and \<open>n\<close> when \<^verbatim>\<open>maxSize == 0\<close>. Where neither the sum nor the product
  leaves the range of \<^verbatim>\<open>int\<close>, the comparison is the one of the integers.
\<close>

theorem SizeLimit_ShallRotate_budget:
  "(SizeLimit_ShallRotate r cur n \<longleftrightarrow> 0 <s maxSize r \<and> maxSize r * 1048576 <s cur + n)
   \<and> (maxSize r = 0 \<longrightarrow> \<not> SizeLimit_ShallRotate r cur n)
   \<and> (- (2 ^ 63) \<le> sint cur + sint n \<and> sint cur + sint n < 2 ^ 63 \<and> sint (maxSize r) < 2 ^ 43 \<longrightarrow>
        (SizeLimit_ShallRotate r cur n \<longleftrightarrow>
           0 < sint (maxSize r) \<and> sint (maxSize r) * 1048576 < sint cur + sint n))"
  using ShallRotate_words ShallRotate_no_budget ShallRotate_exact by blast

theorem SizeLimit_ShallRotate_budget_witness:
  "SizeLimit_ShallRotate sized_example 614400 614400
   \<and> \<not> SizeLimit_ShallRotate sized_example 614400 434176
   \<and> maxSize (sized_example\<lparr>maxSize := 0\<rparr>) = 0
   \<and> \<not> SizeLimit_ShallRotate (sized_example\<lparr>maxSize := 0\<rparr>) 614400 614400"
proof -
  have ms: "maxSize sized_example = 1" "maxSize (sized_example\<lparr>maxSize := 0\<rparr>) = 0"
    by (simp_all add: sized_example_def)
  show ?thesis
    using SizeLimit_ShallRotate_budget [of sized_example 614400 614400]
      SizeLimit_ShallRotate_budget [of sized_example 614400 434176]
      SizeLimit_ShallRotate_budget [of "sized_example\<lparr>maxSize := 0\<rparr>" 614400 614400]
    by (simp add: ms word_sless_alt)
qed

subsection \<open>The daily test\<close>

lemma utc_dates:
  "Format utc dateFormat 1715947200000000000 = ''2024-05-17''"
  "Format utc dateFormat 1715990399000000000 = ''2024-05-17''"
  "Format utc dateFormat 1715990400000000000 = ''2024-05-18''"
  by code_simp+

text \<open>
  Claim C7. \<^verbatim>\<open>DailyRotateRule.ShallRotate\<close> is true exactly when the marker \<^verbatim>\<open>rotatedTime\<close> is
  not empty and the date of the clock, formatted as \<^verbatim>\<open>2006-01-02\<close>, differs from it; its two
  size arguments do not matter. \<^verbatim>\<open>MarkRotated\<close> sets the marker to the date of the clock;
  after it, \<^verbatim>\<open>ShallRotate\<close> is false as long as the clock shows the same date, and true
  once it shows another.
\<close>

theorem Daily_ShallRotate_marker:
  "(Daily_ShallRotate lib now r cs wl \<longleftrightarrow>
      rotatedTime r \<noteq> [] \<and> Format lib dateFormat now \<noteq> rotatedTime r)
   \<and> Daily_ShallRotate lib now r cs wl = Daily_ShallRotate lib now r cs' wl'
   \<and> rotatedTime (Daily_MarkRotated lib now r) = Format lib dateFormat now
   \<and> (Daily_ShallRotate lib later (Daily_MarkRotated lib now r) cs wl \<longleftrightarrow>
        Format lib dateFormat now \<noteq> [] \<and> Format lib dateFormat later \<noteq> Format lib dateFormat now)"
  by (simp add: Daily_ShallRotate_def Daily_MarkRotated_def getNowDate_def)

theorem Daily_ShallRotate_marker_witness:
  "Daily_ShallRotate utc 1715947200000000000 daily_example 0 10
   \<and> \<not> Daily_ShallRotate utc 1715990399000000000 (Daily_MarkRotated utc 1715947200000000000 daily_example) 0 10
   \<and> Daily_ShallRotate utc 1715990400000000000 (Daily_MarkRotated utc 1715947200000000000 daily_example) 0 10"
  using Daily_ShallRotate_marker [of utc 1715947200000000000 daily_example 0 10 0 10 1715990399000000000]
    Daily_ShallRotate_marker [of utc 1715947200000000000 daily_example 0 10 0 10 1715990400000000000]
  by (simp add: utc_dates daily_example_def)

subsection \<open>The order of names\<close>

lemma append_less_append: "xs @ a < xs @ b \<longleftrightarrow> a < (b :: 'a :: linorder list)"
  by (induction xs) simp_all

lemma less_append_same_length:
  "length a = length b \<Longrightarrow> a @ s < b @ s \<longleftrightarrow> a < (b :: 'a :: linorder list)"
  by (induction a b rule: list_induct2) simp_all

lemma less_append_proper: "s \<noteq> [] \<Longrightarrow> xs < xs @ (s :: 'a :: linorder list)"
  by (induction xs) (simp_all add: neq_Nil_conv, auto)

lemma takeWhile_below_sorted:
  "sorted xs \<Longrightarrow> takeWhile (\<lambda>f. f < b) xs = filter (\<lambda>f. f < b) (xs :: 'a :: linorder list)"
proof (induction xs)
  case Nil
  then show ?case by simp
next
  case (Cons x xs)
  show ?case
  proof (cases "x < b")
    case True
    with Cons show ?thesis by simp
  next
    case False
    with Cons.prems have "\<forall>y \<in> set xs. \<not> y < b" by auto
    then have "filter (\<lambda>f. f < b) xs = []" by (simp add: filter_empty_conv)
    with False show ?thesis by simp
  qed
qed

subsection \<open>The retention of \<open>d\<close> days as a duration\<close>

text \<open>
  For 1 to 106751 days the duration is exact; from 106752 days on the multiplication
  leaves the range of \<^verbatim>\<open>int64\<close> and wraps.
\<close>

lemma keep_duration_exact:
  fixes d :: go_int
  assumes "0 < sint d" "sint d \<le> 106751"
  shows "sint (keep_duration d) = - (sint d * 86400000000000)"
proof -
  have 1: "sint (hoursPerDay * d) = 24 * sint d"
    using assms sint_mult_exact[of hoursPerDay d] by (simp add: hoursPerDay_def)
  have 2: "sint (- Hour) = - 3600000000000" by (simp add: Hour_def)
  have "sint (- Hour * (hoursPerDay * d)) = sint (- Hour) * sint (hoursPerDay * d)"
    using assms by (intro sint_mult_exact) (simp_all add: 1 2)
  then show ?thesis by (simp add: keep_duration_def 1 2)
qed

lemma keep_duration_wraps: "sint (keep_duration 106752) = 9223371273709551616"
  by (simp add: keep_duration_def Hour_def hoursPerDay_def)

lemma shift_exact: "sint ((- 24 * 60 + 5) * Minute) = - 86100000000000"
  by (simp add: Minute_def)

subsection \<open>Parsing the time of a backup\<close>

lemma parseBackupTime_two_parts:
  "backup_parts r f = Some (nm, s) \<Longrightarrow> length s = 2 \<Longrightarrow>
   parseBackupTime lib r f = Parse lib rfc3339DateFormat []"
  by (simp add: parseBackupTime_def split: sum.splits)

lemma parseBackupTime_never_time:
  "Parse lib rfc3339DateFormat [] = Inl e \<Longrightarrow> parseBackupTime lib r f \<noteq> Inr t"
  by (auto simp: parseBackupTime_def split: option.splits sum.splits)

lemma underscore_parts:
  "backup_parts underscore_example ''logs/app_2024-05-16T12:05:00Z.log''
     = Some (''logs/app_2024-05-16T12:05:00Z'', [''logs/app'', ''2024-05-16T12:05:00Z''])"
  by code_simp

lemma utc_Parse_empty: "Parse utc rfc3339DateFormat [] = Inl (ErrParse rfc3339DateFormat [])"
  by code_simp

lemma utc_Parse_stamp: "Parse utc rfc3339DateFormat ''2024-05-16T12:05:00Z'' = Inr 1715861100000000000"
  by code_simp

text \<open>
  Claim C5. For every file name, the string \<^verbatim>\<open>parseBackupTime\<close> hands to the time parser is
  the variable \<^verbatim>\<open>t\<close>, which is never assigned from the pieces of the name: for every name
  that splits into exactly two pieces the result is the parser's result on the empty
  string, whatever the parser and the name. A parser that refuses the empty string, as
  \<^verbatim>\<open>time.Parse\<close> does for the layout \<^verbatim>\<open>time.RFC3339\<close>, makes the function return that
  error: no file name yields a time.
\<close>

theorem parseBackupTime_parses_empty_string:
  "(backup_parts r f = Some (nm, s) \<and> length s = 2 \<longrightarrow>
      parseBackupTime lib r f = Parse lib rfc3339DateFormat [])
   \<and> (backup_parts r f = Some (nm, s) \<and> length s = 2
        \<and> Parse lib rfc3339DateFormat [] = Inl e \<longrightarrow> parseBackupTime lib r f = Inl e)
   \<and> (Parse lib rfc3339DateFormat [] = Inl e \<longrightarrow> parseBackupTime lib r f \<noteq> Inr t)"
  using parseBackupTime_two_parts [of r f nm s lib] parseBackupTime_never_time [of lib e r f t]
  by simp

theorem parseBackupTime_parses_empty_string_witness:
  "backup_parts underscore_example ''logs/app_2024-05-16T12:05:00Z.log''
     = Some (''logs/app_2024-05-16T12:05:00Z'', [''logs/app'', ''2024-05-16T12:05:00Z''])
   \<and> Parse utc rfc3339DateFormat ''2024-05-16T12:05:00Z'' = Inr 1715861100000000000
   \<and> parseBackupTime utc underscore_example ''logs/app_2024-05-16T12:05:00Z.log''
       = Inl (ErrParse rfc3339DateFormat [])"
  using parseBackupTime_parses_empty_string
    [of underscore_example "''logs/app_2024-05-16T12:05:00Z.log''" "''logs/app_2024-05-16T12:05:00Z''"
        "[''logs/app'', ''2024-05-16T12:05:00Z'']" utc "ErrParse rfc3339DateFormat []" 0]
  by (simp add: underscore_parts utc_Parse_empty utc_Parse_stamp)

subsection \<open>The last element of a joined path\<close>

lemma split_go_no_sep:
  "c \<notin> set n \<Longrightarrow> split_go [c] acc n = [rev acc @ n]"
proof (induction n arbitrary: acc)
  case Nil
  show ?case by (simp add: split_go.simps)
next
  case (Cons x n)
  then show ?case
    by (subst split_go.simps) auto
qed

lemma split_go_last:
  "c \<notin> set n \<Longrightarrow> \<exists>xs. split_go [c] acc (d @ c # n) = xs @ [n]"
proof (induction d arbitrary: acc)
  case Nil
  then show ?case
    by (subst split_go.simps) (simp add: split_go_no_sep)
next
  case (Cons x d)
  show ?case
  proof (cases "x = c")
    case True
    obtain xs where "split_go [c] [] (d @ c # n) = xs @ [n]"
      using Cons.IH [OF Cons.prems] by blast
    then show ?thesis
      using True by (subst split_go.simps) simp
  next
    case False
    obtain xs where "split_go [c] (x # acc) (d @ c # n) = xs @ [n]"
      using Cons.IH [OF Cons.prems] by blast
    then show ?thesis
      using False by (subst split_go.simps) simp
  qed
qed

lemma clean_elems_last:
  "n \<noteq> [] \<Longrightarrow> n \<noteq> ''.'' \<Longrightarrow> n \<noteq> ''..'' \<Longrightarrow>
   clean_elems rooted st (xs @ [n]) = clean_elems rooted st xs @ [n]"
  by (induction xs arbitrary: st) (auto split: list.splits)

lemma takeWhile_no_sep:
  "c \<notin> set xs \<Longrightarrow> takeWhile (\<lambda>x. x \<noteq> c) (xs @ ys) = xs @ takeWhile (\<lambda>x. x \<noteq> c) ys"
  by (induction xs) auto

lemma takeWhile_rev_no_sep:
  "c \<notin> set n \<Longrightarrow> takeWhile (\<lambda>x. x \<noteq> c) (rev n @ ys) = rev n @ takeWhile (\<lambda>x. x \<noteq> c) ys"
  using takeWhile_no_sep [of c "rev n" ys] by simp

lemma last_element_after_sep:
  "Separator \<notin> set n \<Longrightarrow> last_element (a @ Separator # n) = n"
  by (simp add: last_element_def takeWhile_rev_no_sep)

lemma takeWhile_all_no_sep: "c \<notin> set xs \<Longrightarrow> takeWhile (\<lambda>x. x \<noteq> c) xs = xs"
  by (induction xs) auto

lemma last_element_no_sep: "Separator \<notin> set n \<Longrightarrow> last_element n = n"
  by (simp add: last_element_def takeWhile_all_no_sep)

lemma strings_Join_snoc:
  "ys \<noteq> [] \<Longrightarrow> strings_Join (ys @ [n]) sep = strings_Join ys sep @ sep @ n"
  by (induction ys sep rule: strings_Join.induct) auto

lemma last_element_Join_snoc:
  assumes "Separator \<notin> set n"
  shows "last_element (strings_Join (ys @ [n]) [Separator]) = n"
proof (cases "ys = []")
  case True
  then show ?thesis using assms by (simp add: last_element_no_sep)
next
  case False
  then show ?thesis
    using assms last_element_after_sep [of n "strings_Join ys [Separator]"]
    by (simp add: strings_Join_snoc)
qed

lemma Join_snoc_nonempty: "n \<noteq> [] \<Longrightarrow> strings_Join (ys @ [n]) sep \<noteq> []"
  by (cases "ys = []") (simp_all add: strings_Join_snoc)

lemma last_element_Cons_sep:
  assumes "last_element out = n" "n \<noteq> []"
  shows "last_element (Separator # out) = n"
proof (cases "Separator \<in> set out")
  case True
  then have "takeWhile (\<lambda>c. c \<noteq> Separator) (rev out @ [Separator])
             = takeWhile (\<lambda>c. c \<noteq> Separator) (rev out)"
    by (intro takeWhile_append1 [where x = Separator]) auto
  then show ?thesis
    using assms by (simp add: last_element_def)
next
  case False
  then have "last_element (Separator # out) = out" "last_element out = out"
    using last_element_after_sep [of out "[]"] last_element_no_sep [of out] by simp_all
  then show ?thesis
    using assms by simp
qed

lemma last_element_Clean:
  assumes n: "dir_entry n"
    and path: "path = n \<or> (\<exists>d. path = d @ Separator # n)"
  shows "last_element (filepath_Clean path) = n"
proof -
  have nsep: "Separator \<notin> set n" and nne: "n \<noteq> []" and ndot: "n \<noteq> ''.''" "n \<noteq> ''..''"
    using n by (simp_all add: dir_entry_def)
  have "\<exists>xs. split_go [Separator] [] path = xs @ [n]"
  proof -
    from path show ?thesis
    proof
      assume "path = n"
      then have "split_go [Separator] [] path = [] @ [n]"
        using nsep by (simp add: split_go_no_sep)
      then show ?thesis by blast
    next
      assume "\<exists>d. path = d @ Separator # n"
      then show ?thesis using split_go_last [OF nsep] by auto
    qed
  qed
  then obtain xs where xs: "split_go [Separator] [] path = xs @ [n]" ..
  define rooted where "rooted = (hd path = Separator)"
  define out where "out = strings_Join (clean_elems rooted [] (split_go [Separator] [] path)) [Separator]"
  have out_eq: "out = strings_Join (clean_elems rooted [] xs @ [n]) [Separator]"
    by (simp add: out_def xs clean_elems_last [OF nne ndot])
  have last_out: "last_element out = n"
    by (simp add: out_eq last_element_Join_snoc [OF nsep])
  have out_ne: "out \<noteq> []"
    by (simp add: out_eq Join_snoc_nonempty [OF nne])
  have pne: "path \<noteq> []"
    using path nne by auto
  show ?thesis
  proof (cases rooted)
    case True
    then have "filepath_Clean path = Separator # out"
      using pne by (simp add: filepath_Clean_def Let_def rooted_def out_def)
    then show ?thesis
      using last_out nne by (simp add: last_element_Cons_sep)
  next
    case False
    then have "filepath_Clean path = out"
      using pne out_ne by (simp add: filepath_Clean_def Let_def rooted_def out_def)
    then show ?thesis
      using last_out by simp
  qed
qed

lemma last_element_Join:
  assumes "dir_entry n"
  shows "last_element (filepath_Join [d, n]) = n"
proof (cases "d = []")
  case True
  have "n \<noteq> []" using assms by (simp add: dir_entry_def)
  then have "filepath_Join [d, n] = filepath_Clean n"
    using True by (simp add: filepath_Join_def)
  then show ?thesis using last_element_Clean [OF assms, of n] by simp
next
  case False
  then have "filepath_Join [d, n] = filepath_Clean (d @ Separator # n)"
    by (simp add: filepath_Join_def)
  then show ?thesis using last_element_Clean [OF assms, of "d @ Separator # n"] by auto
qed

lemma last_element_append:
  "Separator \<notin> set b \<Longrightarrow> last_element (a @ b) = last_element a @ b"
  by (simp add: last_element_def takeWhile_rev_no_sep)


subsection \<open>What \<^verbatim>\<open>filepath.Glob\<close> lists\<close>

text \<open>
  The pattern \<open>pre*suf\<close>, with no separator in \<open>suf\<close>, is cut by \<^verbatim>\<open>Split\<close> where \<open>pre\<close> is
  cut: the directory is that of \<open>pre\<close>, and the file pattern is the last element of \<open>pre\<close>,
  the star and \<open>suf\<close>.
\<close>

lemma last_element_shorter: "length (last_element p) \<le> length p"
  using length_takeWhile_le [of "\<lambda>c. c \<noteq> Separator" "rev p"] by (simp add: last_element_def)

lemma filepath_Split_star:
  assumes "Separator \<notin> set suf"
  shows "filepath_Split (pre @ ''*'' @ suf)
           = (fst (filepath_Split pre), snd (filepath_Split pre) @ ''*'' @ suf)"
proof -
  have "Separator \<notin> set (''*'' @ suf)"
    using assms by (simp add: Separator_def)
  then have l: "last_element (pre @ ''*'' @ suf) = last_element pre @ ''*'' @ suf"
    by (rule last_element_append)
  show ?thesis
    using last_element_shorter [of pre] l by (simp add: filepath_Split_def)
qed

text \<open>
  The names a listing holds, as \<^verbatim>\<open>filepath.Glob\<close> builds them: \<^verbatim>\<open>Join(dir, n)\<close> for names
  \<open>n\<close> of the directory that match.
\<close>

lemma star_listing_iff:
  "star_listing pre suf names \<longleftrightarrow>
     (\<forall>p \<in> set names. \<exists>n. dir_entry n \<and> star_match (snd (filepath_Split pre)) suf n
        \<and> p = filepath_Join [cleanGlobPath (fst (filepath_Split pre)), n])"
  unfolding star_listing_def
proof (intro iffI ballI)
  fix p
  assume "\<forall>p \<in> set names. dir_entry (last_element p)
            \<and> star_match (snd (filepath_Split pre)) suf (last_element p)
            \<and> p = filepath_Join [cleanGlobPath (fst (filepath_Split pre)), last_element p]"
    and "p \<in> set names"
  then show "\<exists>n. dir_entry n \<and> star_match (snd (filepath_Split pre)) suf n
               \<and> p = filepath_Join [cleanGlobPath (fst (filepath_Split pre)), n]"
    by blast
next
  fix p
  assume "\<forall>p \<in> set names. \<exists>n. dir_entry n \<and> star_match (snd (filepath_Split pre)) suf n
            \<and> p = filepath_Join [cleanGlobPath (fst (filepath_Split pre)), n]"
    and "p \<in> set names"
  then obtain n where n: "dir_entry n" "star_match (snd (filepath_Split pre)) suf n"
      "p = filepath_Join [cleanGlobPath (fst (filepath_Split pre)), n]"
    by blast
  have "last_element p = n"
    using n(1) n(3) by (simp add: last_element_Join)
  with n show "dir_entry (last_element p)
                 \<and> star_match (snd (filepath_Split pre)) suf (last_element p)
                 \<and> p = filepath_Join [cleanGlobPath (fst (filepath_Split pre)), last_element p]"
    by simp
qed

lemma first_star_unique:
  "c \<notin> set a \<Longrightarrow> c \<notin> set a' \<Longrightarrow> a @ c # b = a' @ c # b' \<Longrightarrow> a = a' \<and> b = b'"
proof (induction a arbitrary: a')
  case Nil
  then show ?case by (cases a') auto
next
  case (Cons x a)
  then show ?case by (cases a') auto
qed

lemma glob_lists_contract:
  assumes star: "CHR ''*'' \<notin> set pre0" and listing: "star_listing pre0 suf0 names"
  shows "Glob_contract (glob_lists (pre0 @ ''*'' @ suf0) names)"
  unfolding Glob_contract_def
proof (intro allI impI)
  fix pre suf fs
  assume a: "\<not> hasMeta pre \<and> \<not> hasMeta suf \<and> Separator \<notin> set suf
             \<and> glob_lists (pre0 @ ''*'' @ suf0) names (pre @ ''*'' @ suf) = Inr fs"
  then have nostar: "CHR ''*'' \<notin> set pre"
    by (auto simp: hasMeta_def)
  show "star_listing pre suf fs"
  proof (cases "pre @ ''*'' @ suf = pre0 @ ''*'' @ suf0")
    case True
    then have "pre = pre0 \<and> suf = suf0"
      using first_star_unique [OF nostar star, of suf suf0] by simp
    moreover have "fs = names"
      using a True by (simp add: glob_lists_def)
    ultimately show ?thesis using listing by simp
  next
    case False
    then have "fs = []"
      using a by (simp add: glob_lists_def)
    then show ?thesis by (simp add: star_listing_def)
  qed
qed

lemma hasMeta_append: "hasMeta (a @ b) \<longleftrightarrow> hasMeta a \<or> hasMeta b"
  by (auto simp: hasMeta_def)

subsection \<open>The outdated files of the daily rule\<close>

lemma Daily_boundaryFile_exact:
  assumes "0 < sint (days r)" "sint (days r) \<le> 106751"
  shows "Daily_boundaryFile lib now r =
         filename r @ delimiter r @ Format lib dateFormat (now - sint (days r) * day_ns)
           @ (if gzip r then gzipExt else [])"
  using assms by (simp add: Daily_boundaryFile_def time_Add_def keep_duration_exact day_ns_def)

lemma Daily_OutdatedFiles_none: "days r \<le>s 0 \<Longrightarrow> Daily_OutdatedFiles lib glob now r = []"
  by (simp add: Daily_OutdatedFiles_def)

lemma Daily_OutdatedFiles_filter:
  "0 <s days r \<Longrightarrow> glob (Daily_pattern r) = Inr names \<Longrightarrow>
   Daily_OutdatedFiles lib glob now r = filter (\<lambda>f. f < Daily_boundaryFile lib now r) names"
  by (simp add: Daily_OutdatedFiles_def word_sle_eq word_sless_alt)

lemma Daily_OutdatedFiles_glob_error:
  "glob (Daily_pattern r) = Inl e \<Longrightarrow> Daily_OutdatedFiles lib glob now r = []"
  by (simp add: Daily_OutdatedFiles_def)

lemma Daily_active_below_boundary:
  "filename r < Daily_boundaryFile lib now r \<longleftrightarrow> Daily_boundaryFile lib now r \<noteq> filename r"
proof -
  have "\<exists>s. Daily_boundaryFile lib now r = filename r @ s"
    by (cases "gzip r") (simp_all add: Daily_boundaryFile_def Let_def)
  then obtain s where s: "Daily_boundaryFile lib now r = filename r @ s" ..
  show ?thesis
    using less_append_proper [of s "filename r"] by (cases "s = []") (simp_all add: s)
qed

lemma Daily_active_file:
  "filename r \<in> set (Daily_OutdatedFiles lib glob now r) \<longleftrightarrow>
     0 <s days r \<and> (\<exists>names. glob (Daily_pattern r) = Inr names \<and> filename r \<in> set names)
     \<and> Daily_boundaryFile lib now r \<noteq> filename r"
  by (cases "glob (Daily_pattern r)")
     (auto simp: Daily_OutdatedFiles_def Daily_active_below_boundary word_sle_eq word_sless_alt)

lemma Daily_active_file_not_listed:
  assumes contract: "Glob_contract glob"
    and meta: "\<not> hasMeta (filename r)" "\<not> hasMeta (delimiter r)"
    and sep: "Separator \<notin> set (delimiter r)"
    and longer: "delimiter r \<noteq> [] \<or> gzip r"
    and listed: "glob (Daily_pattern r) = Inr names"
  shows "filename r \<notin> set names"
proof
  assume active: "filename r \<in> set names"
  define suf where "suf = (if gzip r then gzipExt else [])"
  have pat: "Daily_pattern r = (filename r @ delimiter r) @ ''*'' @ suf"
    by (simp add: Daily_pattern_def suf_def)
  have "\<not> hasMeta (filename r @ delimiter r)"
    using meta by (simp add: hasMeta_append)
  moreover have "\<not> hasMeta suf" "Separator \<notin> set suf"
    by (auto simp: suf_def gzipExt_def hasMeta_def Separator_def)
  ultimately have "star_listing (filename r @ delimiter r) suf names"
    using contract listed unfolding Glob_contract_def pat by blast
  then have "star_match (snd (filepath_Split (filename r @ delimiter r))) suf (last_element (filename r))"
    using active by (auto simp: star_listing_def)
  then have "length (last_element (filename r @ delimiter r)) + length suf
               \<le> length (last_element (filename r))"
    by (simp add: star_match_def filepath_Split_def)
  then have "length (delimiter r) + length suf = 0"
    using sep by (simp add: last_element_append)
  then show False
    using longer by (auto simp: suf_def gzipExt_def)
qed

lemma Daily_active_file_kept:
  assumes "Glob_contract glob" "\<not> hasMeta (filename r)" "\<not> hasMeta (delimiter r)"
    and "Separator \<notin> set (delimiter r)" "delimiter r \<noteq> [] \<or> gzip r"
  shows "filename r \<notin> set (Daily_OutdatedFiles lib glob now r)"
  using Daily_active_file [of r lib glob now] Daily_active_file_not_listed [OF assms]
  by blast

lemma Daily_dated_backups:
  assumes d: "0 < sint (days r)" "sint (days r) \<le> 106751"
    and len: "length (Format lib dateFormat t) = length (Format lib dateFormat (now - sint (days r) * day_ns))"
  shows "filename r @ delimiter r @ Format lib dateFormat t @ (if gzip r then gzipExt else [])
           < Daily_boundaryFile lib now r
         \<longleftrightarrow> Format lib dateFormat t < Format lib dateFormat (now - sint (days r) * day_ns)"
  using len by (simp add: Daily_boundaryFile_exact [OF d] append_less_append less_append_same_length)

lemma Daily_backup_outdated:
  assumes d: "0 < sint (days r)" "sint (days r) \<le> 106751"
    and listed: "glob (Daily_pattern r) = Inr names"
    and len: "length (Format lib dateFormat t) = length (Format lib dateFormat (now - sint (days r) * day_ns))"
  shows "Daily_BackupFileName lib t r @ (if gzip r then gzipExt else [])
           \<in> set (Daily_OutdatedFiles lib glob now r)
         \<longleftrightarrow> Daily_BackupFileName lib t r @ (if gzip r then gzipExt else []) \<in> set names
             \<and> Format lib dateFormat t < Format lib dateFormat (now - sint (days r) * day_ns)"
proof -
  have pos: "0 <s days r"
    using d by (simp add: word_sless_alt)
  have name: "Daily_BackupFileName lib t r @ (if gzip r then gzipExt else [])
                = filename r @ delimiter r @ Format lib dateFormat t @ (if gzip r then gzipExt else [])"
    by (simp add: Daily_BackupFileName_def getNowDate_def)
  have res: "Daily_OutdatedFiles lib glob now r = filter (\<lambda>f. f < Daily_boundaryFile lib now r) names"
    using Daily_OutdatedFiles_filter [of r glob names lib now] pos listed by simp
  show ?thesis
    unfolding res name
    using Daily_dated_backups [OF d len] by auto
qed

lemma Daily_four_and_two_days:
  assumes three: "days r = 3"
    and listed: "glob (Daily_pattern r) = Inr names"
    and len4: "length (Format lib dateFormat (now - 4 * day_ns)) = length (Format lib dateFormat (now - 3 * day_ns))"
    and len2: "length (Format lib dateFormat (now - 2 * day_ns)) = length (Format lib dateFormat (now - 3 * day_ns))"
    and lt4: "Format lib dateFormat (now - 4 * day_ns) < Format lib dateFormat (now - 3 * day_ns)"
    and ge2: "\<not> Format lib dateFormat (now - 2 * day_ns) < Format lib dateFormat (now - 3 * day_ns)"
  shows "(Daily_BackupFileName lib (now - 4 * day_ns) r @ (if gzip r then gzipExt else [])
            \<in> set (Daily_OutdatedFiles lib glob now r)
          \<longleftrightarrow> Daily_BackupFileName lib (now - 4 * day_ns) r @ (if gzip r then gzipExt else []) \<in> set names)
         \<and> Daily_BackupFileName lib (now - 2 * day_ns) r @ (if gzip r then gzipExt else [])
            \<notin> set (Daily_OutdatedFiles lib glob now r)"
proof -
  have d: "0 < sint (days r)" "sint (days r) \<le> 106751" "sint (days r) = 3"
    by (simp_all add: three)
  show ?thesis
    using Daily_backup_outdated [of r glob names lib "now - 4 * day_ns" now]
      Daily_backup_outdated [of r glob names lib "now - 2 * day_ns" now]
      listed len4 len2 lt4 ge2
    by (simp add: d(3))
qed

text \<open>The clock of the examples: 1715947200 seconds after the epoch, 2024-05-17 12:00:00 UTC.\<close>

lemma utc_days_before:
  "Format utc dateFormat (1715947200000000000 - 3 * day_ns) = ''2024-05-14''"
  "Format utc dateFormat (1715947200000000000 - 4 * day_ns) = ''2024-05-13''"
  "Format utc dateFormat (1715947200000000000 - 2 * day_ns) = ''2024-05-15''"
  by code_simp+

lemma daily_example_fields:
  "days daily_example = 3" "filename daily_example = ''app.log''" "delimiter daily_example = ''-''"
  "gzip daily_example = False" "Daily_pattern daily_example = ''app.log-*''"
  by (simp_all add: daily_example_def Daily_pattern_def)

lemma nodelim_fields:
  "days nodelim_example = 3" "filename nodelim_example = ''app.log''" "delimiter nodelim_example = []"
  "gzip nodelim_example = False" "Daily_pattern nodelim_example = ''app.log*''"
  by (simp_all add: nodelim_example_def daily_example_def Daily_pattern_def)

lemma nodelim_boundary:
  "Daily_boundaryFile utc 1715947200000000000 nodelim_example = ''app.log2024-05-14''"
  using Daily_boundaryFile_exact [of nodelim_example utc 1715947200000000000]
  by (simp add: nodelim_fields utc_days_before)

lemma dated_listing:
  "star_listing ''app.log-'' [] [''app.log-2024-05-13'', ''app.log-2024-05-15'']"
  by code_simp

lemma daily_example_backups:
  "Daily_BackupFileName utc (1715947200000000000 - 4 * day_ns) daily_example = ''app.log-2024-05-13''"
  "Daily_BackupFileName utc (1715947200000000000 - 2 * day_ns) daily_example = ''app.log-2024-05-15''"
  by (simp_all add: Daily_BackupFileName_def getNowDate_def daily_example_fields utc_days_before)

lemma daily_example_no_meta:
  "\<not> hasMeta (filename daily_example)" "\<not> hasMeta (delimiter daily_example)"
  "Separator \<notin> set (delimiter daily_example)" "delimiter daily_example \<noteq> []"
  by (simp_all add: daily_example_fields hasMeta_def Separator_def)

lemma dated_glob_contract:
  "Glob_contract (glob_lists ''app.log-*'' [''app.log-2024-05-13'', ''app.log-2024-05-15''])"
  using glob_lists_contract [of "''app.log-''" "[]" "[''app.log-2024-05-13'', ''app.log-2024-05-15'']"]
    dated_listing
  by simp

text \<open>
  Claim C8, as the code has it. \<^verbatim>\<open>DailyRotateRule.OutdatedFiles\<close> returns nothing when
  \<^verbatim>\<open>days <= 0\<close>; otherwise it returns exactly the names \<^verbatim>\<open>filepath.Glob\<close> lists that are
  below the boundary name, in the order listed. For 1 to 106751 days the boundary name is
  \<^verbatim>\<open>filename\<close>, the delimiter and the date \<open>days\<close> times 24 hours before the clock (with
  \<^verbatim>\<open>.gz\<close> when compression is on), and the backup named at the instant \<open>t\<close> (with \<^verbatim>\<open>.gz\<close>
  when compression is on) is in the result exactly when \<^verbatim>\<open>filepath.Glob\<close> lists it and its
  date is below that date (dates have one width). So with three days kept, where the date
  four days back is below the date three days back and the date two days back is not, the
  backup of four days ago is in the result when it is listed, and the backup of two days
  ago is not in the result. The active file is in the result exactly when \<^verbatim>\<open>days > 0\<close>,
  \<^verbatim>\<open>filepath.Glob\<close> lists it, and the boundary name is not the file name itself. When
  \<open>glob\<close> answers as \<^verbatim>\<open>filepath.Glob\<close> does, the file name and the delimiter hold none of
  \<^verbatim>\<open>* ? [ \\<close>, the delimiter holds no separator, and the delimiter is not empty or
  compression is on, the active file is not in the result.
\<close>

theorem Daily_OutdatedFiles_boundary:
  "(days r \<le>s 0 \<longrightarrow> Daily_OutdatedFiles lib glob now r = [])
   \<and> (0 <s days r \<and> glob (Daily_pattern r) = Inr names \<longrightarrow>
        Daily_OutdatedFiles lib glob now r = filter (\<lambda>f. f < Daily_boundaryFile lib now r) names)
   \<and> (0 < sint (days r) \<and> sint (days r) \<le> 106751 \<longrightarrow>
        Daily_boundaryFile lib now r =
          filename r @ delimiter r @ Format lib dateFormat (now - sint (days r) * day_ns)
            @ (if gzip r then gzipExt else []))
   \<and> (0 < sint (days r) \<and> sint (days r) \<le> 106751 \<and> glob (Daily_pattern r) = Inr names
        \<and> length (Format lib dateFormat t) = length (Format lib dateFormat (now - sint (days r) * day_ns)) \<longrightarrow>
        (Daily_BackupFileName lib t r @ (if gzip r then gzipExt else [])
           \<in> set (Daily_OutdatedFiles lib glob now r)
         \<longleftrightarrow> Daily_BackupFileName lib t r @ (if gzip r then gzipExt else []) \<in> set names
             \<and> Format lib dateFormat t < Format lib dateFormat (now - sint (days r) * day_ns)))
   \<and> (days r = 3 \<and> glob (Daily_pattern r) = Inr names
        \<and> length (Format lib dateFormat (now - 4 * day_ns)) = length (Format lib dateFormat (now - 3 * day_ns))
        \<and> length (Format lib dateFormat (now - 2 * day_ns)) = length (Format lib dateFormat (now - 3 * day_ns))
        \<and> Format lib dateFormat (now - 4 * day_ns) < Format lib dateFormat (now - 3 * day_ns)
        \<and> \<not> Format lib dateFormat (now - 2 * day_ns) < Format lib dateFormat (now - 3 * day_ns) \<longrightarrow>
        (Daily_BackupFileName lib (now - 4 * day_ns) r @ (if gzip r then gzipExt else [])
           \<in> set (Daily_OutdatedFiles lib glob now r)
         \<longleftrightarrow> Daily_BackupFileName lib (now - 4 * day_ns) r @ (if gzip r then gzipExt else []) \<in> set names)
        \<and> Daily_BackupFileName lib (now - 2 * day_ns) r @ (if gzip r then gzipExt else [])
           \<notin> set (Daily_OutdatedFiles lib glob now r))
   \<and> (filename r \<in> set (Daily_OutdatedFiles lib glob now r) \<longleftrightarrow>
        0 <s days r \<and> (\<exists>fs. glob (Daily_pattern r) = Inr fs \<and> filename r \<in> set fs)
        \<and> Daily_boundaryFile lib now r \<noteq> filename r)
   \<and> (Glob_contract glob \<and> \<not> hasMeta (filename r) \<and> \<not> hasMeta (delimiter r)
        \<and> Separator \<notin> set (delimiter r) \<and> (delimiter r \<noteq> [] \<or> gzip r) \<longrightarrow>
        filename r \<notin> set (Daily_OutdatedFiles lib glob now r))"
proof (intro conjI)
  show "days r \<le>s 0 \<longrightarrow> Daily_OutdatedFiles lib glob now r = []"
    using Daily_OutdatedFiles_none [of r lib glob now] by blast
next
  show "0 <s days r \<and> glob (Daily_pattern r) = Inr names \<longrightarrow>
        Daily_OutdatedFiles lib glob now r = filter (\<lambda>f. f < Daily_boundaryFile lib now r) names"
    using Daily_OutdatedFiles_filter [of r glob names lib now] by blast
next
  show "0 < sint (days r) \<and> sint (days r) \<le> 106751 \<longrightarrow>
        Daily_boundaryFile lib now r =
          filename r @ delimiter r @ Format lib dateFormat (now - sint (days r) * day_ns)
            @ (if gzip r then gzipExt else [])"
    using Daily_boundaryFile_exact [of r lib now] by blast
next
  show "0 < sint (days r) \<and> sint (days r) \<le> 106751 \<and> glob (Daily_pattern r) = Inr names
        \<and> length (Format lib dateFormat t) = length (Format lib dateFormat (now - sint (days r) * day_ns)) \<longrightarrow>
        (Daily_BackupFileName lib t r @ (if gzip r then gzipExt else [])
           \<in> set (Daily_OutdatedFiles lib glob now r)
         \<longleftrightarrow> Daily_BackupFileName lib t r @ (if gzip r then gzipExt else []) \<in> set names
             \<and> Format lib dateFormat t < Format lib dateFormat (now - sint (days r) * day_ns))"
    using Daily_backup_outdated [of r glob names lib t now] by blast
next
  show "days r = 3 \<and> glob (Daily_pattern r) = Inr names
        \<and> length (Format lib dateFormat (now - 4 * day_ns)) = length (Format lib dateFormat (now - 3 * day_ns))
        \<and> length (Format lib dateFormat (now - 2 * day_ns)) = length (Format lib dateFormat (now - 3 * day_ns))
        \<and> Format lib dateFormat (now - 4 * day_ns) < Format lib dateFormat (now - 3 * day_ns)
        \<and> \<not> Format lib dateFormat (now - 2 * day_ns) < Format lib dateFormat (now - 3 * day_ns) \<longrightarrow>
        (Daily_BackupFileName lib (now - 4 * day_ns) r @ (if gzip r then gzipExt else [])
           \<in> set (Daily_OutdatedFiles lib glob now r)
         \<longleftrightarrow> Daily_BackupFileName lib (now - 4 * day_ns) r @ (if gzip r then gzipExt else []) \<in> set names)
        \<and> Daily_BackupFileName lib (now - 2 * day_ns) r @ (if gzip r then gzipExt else [])
           \<notin> set (Daily_OutdatedFiles lib glob now r)"
    using Daily_four_and_two_days [of r glob names lib now] by blast
next
  show "filename r \<in> set (Daily_OutdatedFiles lib glob now r) \<longleftrightarrow>
        0 <s days r \<and> (\<exists>fs. glob (Daily_pattern r) = Inr fs \<and> filename r \<in> set fs)
        \<and> Daily_boundaryFile lib now r \<noteq> filename r"
    by (rule Daily_active_file)
next
  show "Glob_contract glob \<and> \<not> hasMeta (filename r) \<and> \<not> hasMeta (delimiter r)
        \<and> Separator \<notin> set (delimiter r) \<and> (delimiter r \<noteq> [] \<or> gzip r) \<longrightarrow>
        filename r \<notin> set (Daily_OutdatedFiles lib glob now r)"
    using Daily_active_file_kept [of glob r lib now] by blast
qed

text \<open>
  With three days kept and the clock at 2024-05-17, the backup dated four days before is
  outdated and the one dated two days before is not; the listing is one \<^verbatim>\<open>filepath.Glob\<close>
  can give, and the active file is not in the result.
\<close>

theorem Daily_OutdatedFiles_boundary_witness:
  "Daily_pattern daily_example = ''app.log-*''
   \<and> Glob_contract (glob_lists ''app.log-*'' [''app.log-2024-05-13'', ''app.log-2024-05-15''])
   \<and> Daily_BackupFileName utc (1715947200000000000 - 4 * day_ns) daily_example = ''app.log-2024-05-13''
   \<and> Daily_BackupFileName utc (1715947200000000000 - 2 * day_ns) daily_example = ''app.log-2024-05-15''
   \<and> Daily_OutdatedFiles utc (glob_lists ''app.log-*'' [''app.log-2024-05-13'', ''app.log-2024-05-15''])
        1715947200000000000 daily_example = [''app.log-2024-05-13'']
   \<and> ''app.log-2024-05-13'' \<in> set (Daily_OutdatedFiles utc
        (glob_lists ''app.log-*'' [''app.log-2024-05-13'', ''app.log-2024-05-15'']) 1715947200000000000 daily_example)
   \<and> ''app.log-2024-05-15'' \<notin> set (Daily_OutdatedFiles utc
        (glob_lists ''app.log-*'' [''app.log-2024-05-13'', ''app.log-2024-05-15'']) 1715947200000000000 daily_example)
   \<and> Daily_OutdatedFiles utc (glob_lists ''app.log-*'' [''app.log-2024-05-13'', ''app.log-2024-05-15''])
        1715947200000000000 (daily_example\<lparr>days := 0\<rparr>) = []
   \<and> filename daily_example \<notin> set (Daily_OutdatedFiles utc
        (glob_lists ''app.log-*'' [''app.log-2024-05-13'', ''app.log-2024-05-15'']) 1715947200000000000 daily_example)"
proof -
  let ?names = "[''app.log-2024-05-13'', ''app.log-2024-05-15'']"
  let ?glob = "glob_lists ''app.log-*'' ?names"
  note inst = Daily_OutdatedFiles_boundary
    [of daily_example utc ?glob 1715947200000000000 ?names "1715947200000000000 - 4 * day_ns"]
  have listed: "?glob (Daily_pattern daily_example) = Inr ?names"
    by (simp add: daily_example_fields glob_lists_def)
  have b: "Daily_boundaryFile utc 1715947200000000000 daily_example = ''app.log-2024-05-14''"
    using inst by (simp add: daily_example_fields utc_days_before)
  have 1: "Daily_OutdatedFiles utc ?glob 1715947200000000000 daily_example = [''app.log-2024-05-13'']"
    using inst listed by (simp add: daily_example_fields b word_sless_alt)
  have 2: "Daily_OutdatedFiles utc ?glob 1715947200000000000 (daily_example\<lparr>days := 0\<rparr>) = []"
    using Daily_OutdatedFiles_boundary [of "daily_example\<lparr>days := 0\<rparr>" utc ?glob 1715947200000000000]
    by (simp add: word_sle_eq)
  have "days daily_example = 3 \<and> ?glob (Daily_pattern daily_example) = Inr ?names
        \<and> length (Format utc dateFormat (1715947200000000000 - 4 * day_ns))
            = length (Format utc dateFormat (1715947200000000000 - 3 * day_ns))
        \<and> length (Format utc dateFormat (1715947200000000000 - 2 * day_ns))
            = length (Format utc dateFormat (1715947200000000000 - 3 * day_ns))
        \<and> Format utc dateFormat (1715947200000000000 - 4 * day_ns)
            < Format utc dateFormat (1715947200000000000 - 3 * day_ns)
        \<and> \<not> Format utc dateFormat (1715947200000000000 - 2 * day_ns)
            < Format utc dateFormat (1715947200000000000 - 3 * day_ns)"
    using listed by (simp add: daily_example_fields utc_days_before)
  with inst have
    "(Daily_BackupFileName utc (1715947200000000000 - 4 * day_ns) daily_example
          @ (if gzip daily_example then gzipExt else [])
        \<in> set (Daily_OutdatedFiles utc ?glob 1715947200000000000 daily_example)
      \<longleftrightarrow> Daily_BackupFileName utc (1715947200000000000 - 4 * day_ns) daily_example
          @ (if gzip daily_example then gzipExt else []) \<in> set ?names)
     \<and> Daily_BackupFileName utc (1715947200000000000 - 2 * day_ns) daily_example
          @ (if gzip daily_example then gzipExt else [])
        \<notin> set (Daily_OutdatedFiles utc ?glob 1715947200000000000 daily_example)"
    by blast
  then have 3: "''app.log-2024-05-13'' \<in> set (Daily_OutdatedFiles utc ?glob 1715947200000000000 daily_example)"
    and 4: "''app.log-2024-05-15'' \<notin> set (Daily_OutdatedFiles utc ?glob 1715947200000000000 daily_example)"
    by (simp_all add: daily_example_backups daily_example_fields)
  have "Glob_contract ?glob \<and> \<not> hasMeta (filename daily_example) \<and> \<not> hasMeta (delimiter daily_example)
        \<and> Separator \<notin> set (delimiter daily_example)
        \<and> (delimiter daily_example \<noteq> [] \<or> gzip daily_example)"
    by (simp add: dated_glob_contract daily_example_no_meta)
  with inst have 5: "filename daily_example \<notin> set (Daily_OutdatedFiles utc ?glob 1715947200000000000 daily_example)"
    by blast
  show ?thesis
    using 1 2 3 4 5 dated_glob_contract
    by (simp add: daily_example_fields daily_example_backups)
qed

text \<open>
  With an empty delimiter and no compression the pattern is \<^verbatim>\<open>app.log*\<close>, and a listing
  \<^verbatim>\<open>filepath.Glob\<close> can give for it holds the active file.
\<close>

lemma nodelim_listing:
  "star_listing ''app.log'' [] [''app.log'', ''app.log2024-05-13'']"
  by code_simp

lemma nodelim_glob_contract:
  "Glob_contract (glob_lists ''app.log*'' [''app.log'', ''app.log2024-05-13''])"
  using glob_lists_contract [of "''app.log''" "[]" "[''app.log'', ''app.log2024-05-13'']"]
    nodelim_listing
  by simp

text \<open>
  Claim C8 as the specification states it fails for an empty delimiter: the pattern is
  \<^verbatim>\<open>app.log*\<close>, which the active file \<^verbatim>\<open>app.log\<close> matches, and the active file is below the
  boundary name \<^verbatim>\<open>app.log2024-05-14\<close>.
\<close>

theorem Daily_OutdatedFiles_active_file_counterexample:
  "Daily_pattern nodelim_example = ''app.log*''
   \<and> filename nodelim_example \<in> set (Daily_OutdatedFiles utc
        (glob_lists ''app.log*'' [''app.log'', ''app.log2024-05-13'']) 1715947200000000000 nodelim_example)"
  by (simp add: Daily_OutdatedFiles_def nodelim_fields nodelim_boundary word_sle_eq glob_lists_def)

subsection \<open>The outdated files of the size rule\<close>

lemma SizeLimit_OutdatedFiles_distinct: "distinct (SizeLimit_OutdatedFiles lib glob now r)"
  by (simp add: SizeLimit_OutdatedFiles_def Let_def split: sum.splits)

lemma SizeLimit_OutdatedFiles_set:
  assumes g: "glob (SizeLimit_pattern r) = Inr globbed"
  shows "set (SizeLimit_OutdatedFiles lib glob now r) =
     (if 0 <s maxBackups r \<and> sint (maxBackups r) < int (length globbed)
      then set (take (length globbed - nat (sint (maxBackups r))) (sort globbed))
             \<union> (if 0 <s days r
                then {f \<in> set (drop (length globbed - nat (sint (maxBackups r))) (sort globbed)).
                        f < SizeLimit_boundaryFile lib now r}
                else {})
      else (if 0 <s days r then {f \<in> set globbed. f < SizeLimit_boundaryFile lib now r} else {}))"
proof -
  define b where "b = SizeLimit_boundaryFile lib now r"
  define cut where "cut = length globbed - nat (sint (maxBackups r))"
  have sd: "sorted (drop cut (sort globbed))"
    by (simp add: sorted_wrt_drop)
  have tw: "set (takeWhile (\<lambda>f. f < b) (drop cut (sort globbed)))
              = {f \<in> set (drop cut (sort globbed)). f < b}"
    by (simp add: takeWhile_below_sorted [OF sd])
  have tw0: "set (takeWhile (\<lambda>f. f < b) (sort globbed)) = {f \<in> set globbed. f < b}"
    by (simp add: takeWhile_below_sorted)
  show ?thesis
  proof (cases "0 <s maxBackups r \<and> sint (maxBackups r) < int (length globbed)")
    case True
    then show ?thesis
      using g tw by (cases "0 <s days r") (simp_all add: SizeLimit_OutdatedFiles_def b_def cut_def Let_def)
  next
    case False
    then show ?thesis
      using g tw0 by (cases "0 <s days r") (auto simp add: SizeLimit_OutdatedFiles_def b_def Let_def)
  qed
qed

lemma SizeLimit_OutdatedFiles_two_of_five:
  assumes g: "glob (SizeLimit_pattern r) = Inr globbed"
    and n: "length globbed = 5" and mb: "maxBackups r = 2"
  shows "set (SizeLimit_OutdatedFiles lib glob now r) =
           set (take 3 (sort globbed))
           \<union> (if 0 <s days r
              then {f \<in> set (drop 3 (sort globbed)). f < SizeLimit_boundaryFile lib now r} else {})"
  using SizeLimit_OutdatedFiles_set [of glob r globbed lib now] g
  by (simp add: n mb word_sless_alt)

lemma SizeLimit_OutdatedFiles_count_only:
  assumes g: "glob (SizeLimit_pattern r) = Inr globbed"
    and n: "length globbed = 5" and mb: "maxBackups r = 2"
    and d: "days r \<le>s 0" and dist: "distinct globbed"
  shows "set (SizeLimit_OutdatedFiles lib glob now r) = set (take 3 (sort globbed))
         \<and> length (SizeLimit_OutdatedFiles lib glob now r) = 3"
proof -
  have nd: "\<not> 0 <s days r"
    using d by (simp add: word_sle_eq word_sless_alt)
  have 1: "set (SizeLimit_OutdatedFiles lib glob now r) = set (take 3 (sort globbed))"
    using SizeLimit_OutdatedFiles_two_of_five [of glob r globbed lib now] g n mb nd by simp
  have "distinct (take 3 (sort globbed))"
    using dist by (simp add: distinct_take)
  then have 2: "length (SizeLimit_OutdatedFiles lib glob now r) = 3"
    using g n mb nd
    by (simp add: SizeLimit_OutdatedFiles_def word_sless_alt distinct_remdups_id)
  show ?thesis using 1 2 by simp
qed

lemma five_backups_sorted:
  "sort five_backups =
     [''logs/app-2024-05-11T09:00:00Z.log'', ''logs/app-2024-05-12T09:00:00Z.log'',
      ''logs/app-2024-05-13T09:00:00Z.log'', ''logs/app-2024-05-14T09:00:00Z.log'',
      ''logs/app-2024-05-15T09:00:00Z.log'']"
  "length five_backups = 5" "distinct five_backups"
  by code_simp+

lemma five_backups_evaluated:
  "take 3 (sort five_backups) =
     [''logs/app-2024-05-11T09:00:00Z.log'', ''logs/app-2024-05-12T09:00:00Z.log'',
      ''logs/app-2024-05-13T09:00:00Z.log'']"
  "filter (\<lambda>f. f < ''logs/app-2024-05-14T12:00:00Z.log'') (drop 3 (sort five_backups))
     = [''logs/app-2024-05-14T09:00:00Z.log'']"
  by code_simp+

lemma sized_example_names:
  "SizeLimit_pattern sized_example = ''logs/app-*.log''"
  "SizeLimit_boundaryFile utc 1715947200000000000 (sized_example\<lparr>days := 3\<rparr>)
     = ''logs/app-2024-05-14T12:00:00Z.log''"
  by code_simp+

lemma sized_example_fields:
  "maxBackups sized_example = 2" "days sized_example = 0" "gzip sized_example = False"
  "maxBackups (sized_example\<lparr>days := 3\<rparr>) = 2" "days (sized_example\<lparr>days := 3\<rparr>) = 3"
  "SizeLimit_pattern (sized_example\<lparr>days := 3\<rparr>) = SizeLimit_pattern sized_example"
  by (simp_all add: sized_example_def SizeLimit_pattern_def parseFilename_def)

text \<open>
  Claim C6. The result of \<^verbatim>\<open>SizeLimitRotateRule.OutdatedFiles\<close> holds every name once. With
  \<^verbatim>\<open>maxBackups = 2\<close> and five backups listed it is, with no days of retention, exactly the
  three names that come first in the order of strings. With days of retention the age
  test adds, from the two names the count test left, those below the boundary name: so a
  backup among the newest \<^verbatim>\<open>maxBackups\<close> and older than the window is outdated too. The last
  part gives the result for every setting.
\<close>

theorem SizeLimit_OutdatedFiles_count_and_age:
  "distinct (SizeLimit_OutdatedFiles lib glob now r)
   \<and> (glob (SizeLimit_pattern r) = Inr globbed \<and> length globbed = 5 \<and> distinct globbed
        \<and> maxBackups r = 2 \<and> days r \<le>s 0 \<longrightarrow>
        set (SizeLimit_OutdatedFiles lib glob now r) = set (take 3 (sort globbed))
        \<and> length (SizeLimit_OutdatedFiles lib glob now r) = 3)
   \<and> (glob (SizeLimit_pattern r) = Inr globbed \<and> length globbed = 5 \<and> maxBackups r = 2 \<longrightarrow>
        set (SizeLimit_OutdatedFiles lib glob now r) =
          set (take 3 (sort globbed))
          \<union> (if 0 <s days r
             then {f \<in> set (drop 3 (sort globbed)). f < SizeLimit_boundaryFile lib now r} else {}))
   \<and> (glob (SizeLimit_pattern r) = Inr globbed \<longrightarrow>
        set (SizeLimit_OutdatedFiles lib glob now r) =
          (if 0 <s maxBackups r \<and> sint (maxBackups r) < int (length globbed)
           then set (take (length globbed - nat (sint (maxBackups r))) (sort globbed))
                  \<union> (if 0 <s days r
                     then {f \<in> set (drop (length globbed - nat (sint (maxBackups r))) (sort globbed)).
                             f < SizeLimit_boundaryFile lib now r}
                     else {})
           else (if 0 <s days r then {f \<in> set globbed. f < SizeLimit_boundaryFile lib now r} else {})))"
  using SizeLimit_OutdatedFiles_distinct [of lib glob now r]
    SizeLimit_OutdatedFiles_count_only [of glob r globbed lib now]
    SizeLimit_OutdatedFiles_two_of_five [of glob r globbed lib now]
    SizeLimit_OutdatedFiles_set [of glob r globbed lib now]
  by (intro conjI impI) (simp, simp, simp, simp)

theorem SizeLimit_OutdatedFiles_count_and_age_witness:
  "SizeLimit_pattern sized_example = ''logs/app-*.log''
   \<and> set (SizeLimit_OutdatedFiles utc (glob_lists ''logs/app-*.log'' five_backups) 1715947200000000000 sized_example)
       = {''logs/app-2024-05-11T09:00:00Z.log'', ''logs/app-2024-05-12T09:00:00Z.log'',
          ''logs/app-2024-05-13T09:00:00Z.log''}
   \<and> length (SizeLimit_OutdatedFiles utc (glob_lists ''logs/app-*.log'' five_backups) 1715947200000000000 sized_example) = 3
   \<and> set (SizeLimit_OutdatedFiles utc (glob_lists ''logs/app-*.log'' five_backups) 1715947200000000000
             (sized_example\<lparr>days := 3\<rparr>))
       = {''logs/app-2024-05-11T09:00:00Z.log'', ''logs/app-2024-05-12T09:00:00Z.log'',
          ''logs/app-2024-05-13T09:00:00Z.log'', ''logs/app-2024-05-14T09:00:00Z.log''}"
proof -
  let ?glob = "glob_lists ''logs/app-*.log'' five_backups"
  have 1: "set (SizeLimit_OutdatedFiles utc ?glob 1715947200000000000 sized_example)
             = set (take 3 (sort five_backups))
           \<and> length (SizeLimit_OutdatedFiles utc ?glob 1715947200000000000 sized_example) = 3"
    using SizeLimit_OutdatedFiles_count_and_age
      [of utc ?glob 1715947200000000000 sized_example five_backups]
    by (simp add: five_backups_sorted(2,3) sized_example_fields sized_example_names(1) word_sle_eq glob_lists_def)
  have 2: "set (SizeLimit_OutdatedFiles utc ?glob 1715947200000000000 (sized_example\<lparr>days := 3\<rparr>))
             = set (take 3 (sort five_backups))
               \<union> {f \<in> set (drop 3 (sort five_backups)). f < ''logs/app-2024-05-14T12:00:00Z.log''}"
    using SizeLimit_OutdatedFiles_count_and_age
      [of utc ?glob 1715947200000000000 "sized_example\<lparr>days := 3\<rparr>" five_backups]
    by (simp add: five_backups_sorted(2) sized_example_fields sized_example_names word_sless_alt glob_lists_def)
  have 3: "set (take 3 (sort five_backups)) \<union>
             {f \<in> set (drop 3 (sort five_backups)). f < ''logs/app-2024-05-14T12:00:00Z.log''}
           = set (take 3 (sort five_backups)
                  @ filter (\<lambda>f. f < ''logs/app-2024-05-14T12:00:00Z.log'') (drop 3 (sort five_backups)))"
    by simp
  show ?thesis
    using 1 2 unfolding 3 by (simp add: five_backups_evaluated sized_example_names(1))
qed

subsection \<open>The instant in the names of the size rule\<close>

lemma getNowDateInRFC3339Format_shifted:
  "getNowDateInRFC3339Format lib now = Format lib rfc3339DateFormat (now - shift_ns)"
  by (simp add: getNowDateInRFC3339Format_def time_Add_def Minute_def shift_ns_def)

lemma SizeLimit_BackupFileName_shifted:
  "SizeLimit_BackupFileName lib now r = SizeLimit_name_for lib r (now - shift_ns)"
  by (simp add: SizeLimit_BackupFileName_def SizeLimit_name_for_def parseFilename_def Let_def
      getNowDateInRFC3339Format_shifted)

lemma SizeLimit_boundaryFile_exact:
  assumes "0 < sint (days r)" "sint (days r) \<le> 106751"
  shows "SizeLimit_boundaryFile lib now r =
         SizeLimit_name_for lib r (now - sint (days r) * day_ns) @ (if gzip r then gzipExt else [])"
  using assms
  by (simp add: SizeLimit_boundaryFile_def SizeLimit_name_for_def parseFilename_def Let_def
      time_Add_def keep_duration_exact day_ns_def)

lemma SizeLimit_backup_is_early_boundary:
  assumes "0 < sint (days r)" "sint (days r) \<le> 106751"
  shows "SizeLimit_BackupFileName lib t r @ (if gzip r then gzipExt else [])
         = SizeLimit_boundaryFile lib (t + sint (days r) * day_ns - shift_ns) r"
  using assms by (simp add: SizeLimit_boundaryFile_exact SizeLimit_BackupFileName_shifted)

lemma SizeLimit_age_test_alone:
  assumes g: "glob (SizeLimit_pattern r) = Inr names"
    and c: "\<not> (0 <s maxBackups r \<and> sint (maxBackups r) < int (length names))"
    and d: "0 < sint (days r)" "sint (days r) \<le> 106751"
    and b: "b \<in> set names"
  shows "b \<in> set (SizeLimit_OutdatedFiles lib glob now r) \<longleftrightarrow>
         b < SizeLimit_name_for lib r (now - sint (days r) * day_ns) @ (if gzip r then gzipExt else [])"
  using SizeLimit_OutdatedFiles_set [of glob r names lib now] g c d(1) b
  by (auto simp add: SizeLimit_boundaryFile_exact [OF d] word_sless_alt)

lemma SizeLimit_backup_age_test:
  assumes d: "0 < sint (days r)" "sint (days r) \<le> 106751"
    and g: "glob (SizeLimit_pattern r) = Inr names"
    and c: "\<not> (0 <s maxBackups r \<and> sint (maxBackups r) < int (length names))"
    and b: "SizeLimit_BackupFileName lib t r @ (if gzip r then gzipExt else []) \<in> set names"
  shows "SizeLimit_BackupFileName lib t r @ (if gzip r then gzipExt else [])
           \<in> set (SizeLimit_OutdatedFiles lib glob now r)
         \<longleftrightarrow> SizeLimit_name_for lib r (t - shift_ns) @ (if gzip r then gzipExt else [])
              < SizeLimit_name_for lib r (now - sint (days r) * day_ns) @ (if gzip r then gzipExt else [])"
proof -
  have "SizeLimit_BackupFileName lib t r @ (if gzip r then gzipExt else [])
           \<in> set (SizeLimit_OutdatedFiles lib glob now r)
        \<longleftrightarrow> SizeLimit_BackupFileName lib t r @ (if gzip r then gzipExt else [])
              < SizeLimit_name_for lib r (now - sint (days r) * day_ns) @ (if gzip r then gzipExt else [])"
    using SizeLimit_age_test_alone
      [of glob r names "SizeLimit_BackupFileName lib t r @ (if gzip r then gzipExt else [])" lib now]
      g c d b by blast
  then show ?thesis
    by (simp only: SizeLimit_BackupFileName_shifted)
qed

lemma one_day_names:
  "SizeLimit_BackupFileName utc 1715947200000000000 one_day_example = ''logs/app-2024-05-16T12:05:00Z.log''"
  "SizeLimit_name_for utc one_day_example (1715947200000000000 - shift_ns) = ''logs/app-2024-05-16T12:05:00Z.log''"
  "SizeLimit_name_for utc one_day_example (1715947800000000000 - day_ns) = ''logs/app-2024-05-16T12:10:00Z.log''"
  "SizeLimit_name_for utc one_day_example (1715947440000000000 - day_ns) = ''logs/app-2024-05-16T12:04:00Z.log''"
  "SizeLimit_pattern one_day_example = ''logs/app-*.log''"
  "Format utc rfc3339DateFormat 1715947200000000000 = ''2024-05-17T12:00:00Z''"
  by code_simp+

lemma one_day_fields:
  "days one_day_example = 1" "gzip one_day_example = False" "maxBackups one_day_example = 2"
  by (simp_all add: one_day_example_def sized_example_def)

text \<open>
  Claim C10. The instant \<^verbatim>\<open>SizeLimitRotateRule.MarkRotated\<close> stores and \<^verbatim>\<open>BackupFileName\<close>
  writes into the name is the clock minus 1435 minutes, while the boundary name of
  \<^verbatim>\<open>OutdatedFiles\<close> carries the clock minus the days of retention, with no shift. So a
  backup made at \<open>t\<close> is named as one made 23 hours 55 minutes earlier; its name is the
  boundary name of the cleanup that runs 1435 minutes before the retention ends; and,
  where the age test alone decides, it is outdated exactly when the name that carries
  \<open>t\<close> minus 1435 minutes is below the name that carries the clock minus the retention.
\<close>

theorem SizeLimit_timestamp_shifted:
  "getNowDateInRFC3339Format lib now = Format lib rfc3339DateFormat (now - shift_ns)
   \<and> rotatedTime (SizeLimit_MarkRotated lib now r) = Format lib rfc3339DateFormat (now - shift_ns)
   \<and> SizeLimit_BackupFileName lib now r = SizeLimit_name_for lib r (now - shift_ns)
   \<and> (0 < sint (days r) \<and> sint (days r) \<le> 106751 \<longrightarrow>
        SizeLimit_boundaryFile lib now r =
          SizeLimit_name_for lib r (now - sint (days r) * day_ns) @ (if gzip r then gzipExt else []))
   \<and> (0 < sint (days r) \<and> sint (days r) \<le> 106751 \<longrightarrow>
        SizeLimit_BackupFileName lib t r @ (if gzip r then gzipExt else [])
          = SizeLimit_boundaryFile lib (t + sint (days r) * day_ns - shift_ns) r)
   \<and> (0 < sint (days r) \<and> sint (days r) \<le> 106751
        \<and> glob (SizeLimit_pattern r) = Inr names
        \<and> \<not> (0 <s maxBackups r \<and> sint (maxBackups r) < int (length names))
        \<and> SizeLimit_BackupFileName lib t r @ (if gzip r then gzipExt else []) \<in> set names \<longrightarrow>
        (SizeLimit_BackupFileName lib t r @ (if gzip r then gzipExt else [])
           \<in> set (SizeLimit_OutdatedFiles lib glob now r)
         \<longleftrightarrow> SizeLimit_name_for lib r (t - shift_ns) @ (if gzip r then gzipExt else [])
              < SizeLimit_name_for lib r (now - sint (days r) * day_ns) @ (if gzip r then gzipExt else [])))"
proof (intro conjI impI)
  show "getNowDateInRFC3339Format lib now = Format lib rfc3339DateFormat (now - shift_ns)"
    by (rule getNowDateInRFC3339Format_shifted)
  show "rotatedTime (SizeLimit_MarkRotated lib now r) = Format lib rfc3339DateFormat (now - shift_ns)"
    by (simp add: SizeLimit_MarkRotated_def getNowDateInRFC3339Format_shifted)
  show "SizeLimit_BackupFileName lib now r = SizeLimit_name_for lib r (now - shift_ns)"
    by (rule SizeLimit_BackupFileName_shifted)
next
  assume "0 < sint (days r) \<and> sint (days r) \<le> 106751"
  then show "SizeLimit_boundaryFile lib now r =
          SizeLimit_name_for lib r (now - sint (days r) * day_ns) @ (if gzip r then gzipExt else [])"
    using SizeLimit_boundaryFile_exact [of r lib now] by blast
next
  assume "0 < sint (days r) \<and> sint (days r) \<le> 106751"
  then show "SizeLimit_BackupFileName lib t r @ (if gzip r then gzipExt else [])
          = SizeLimit_boundaryFile lib (t + sint (days r) * day_ns - shift_ns) r"
    using SizeLimit_backup_is_early_boundary [of r lib t] by blast
next
  assume "0 < sint (days r) \<and> sint (days r) \<le> 106751
        \<and> glob (SizeLimit_pattern r) = Inr names
        \<and> \<not> (0 <s maxBackups r \<and> sint (maxBackups r) < int (length names))
        \<and> SizeLimit_BackupFileName lib t r @ (if gzip r then gzipExt else []) \<in> set names"
  then show "SizeLimit_BackupFileName lib t r @ (if gzip r then gzipExt else [])
           \<in> set (SizeLimit_OutdatedFiles lib glob now r)
         \<longleftrightarrow> SizeLimit_name_for lib r (t - shift_ns) @ (if gzip r then gzipExt else [])
              < SizeLimit_name_for lib r (now - sint (days r) * day_ns) @ (if gzip r then gzipExt else [])"
    using SizeLimit_backup_age_test [of r glob names lib t now] by blast
qed

text \<open>
  With one day of retention, a backup made at 2024-05-17 12:00:00 is named
  \<^verbatim>\<open>2024-05-16T12:05:00Z\<close>; the cleanup ten minutes later reports it outdated, the one four
  minutes later does not.
\<close>

theorem SizeLimit_timestamp_shifted_witness:
  "Format utc rfc3339DateFormat 1715947200000000000 = ''2024-05-17T12:00:00Z''
   \<and> SizeLimit_BackupFileName utc 1715947200000000000 one_day_example
       = ''logs/app-2024-05-16T12:05:00Z.log''
   \<and> ''logs/app-2024-05-16T12:05:00Z.log''
       \<in> set (SizeLimit_OutdatedFiles utc (glob_lists ''logs/app-*.log'' [''logs/app-2024-05-16T12:05:00Z.log''])
                1715947800000000000 one_day_example)
   \<and> ''logs/app-2024-05-16T12:05:00Z.log''
       \<notin> set (SizeLimit_OutdatedFiles utc (glob_lists ''logs/app-*.log'' [''logs/app-2024-05-16T12:05:00Z.log''])
                1715947440000000000 one_day_example)"
proof -
  let ?b = "''logs/app-2024-05-16T12:05:00Z.log''"
  let ?glob = "glob_lists ''logs/app-*.log'' [?b]"
  have h: "0 < sint (days one_day_example) \<and> sint (days one_day_example) \<le> 106751
        \<and> ?glob (SizeLimit_pattern one_day_example) = Inr [?b]
        \<and> \<not> (0 <s maxBackups one_day_example \<and> sint (maxBackups one_day_example) < int (length [?b]))
        \<and> SizeLimit_BackupFileName utc 1715947200000000000 one_day_example
              @ (if gzip one_day_example then gzipExt else []) \<in> set [?b]"
    by (simp add: one_day_fields one_day_names glob_lists_def word_sless_alt)
  have late: "SizeLimit_BackupFileName utc 1715947200000000000 one_day_example
                @ (if gzip one_day_example then gzipExt else [])
              \<in> set (SizeLimit_OutdatedFiles utc ?glob 1715947800000000000 one_day_example)
            \<longleftrightarrow> SizeLimit_name_for utc one_day_example (1715947200000000000 - shift_ns)
                  @ (if gzip one_day_example then gzipExt else [])
                < SizeLimit_name_for utc one_day_example
                    (1715947800000000000 - sint (days one_day_example) * day_ns)
                  @ (if gzip one_day_example then gzipExt else [])"
    using SizeLimit_timestamp_shifted
      [of utc 1715947800000000000 one_day_example 1715947200000000000 ?glob "[?b]"] h
    by blast
  have early: "SizeLimit_BackupFileName utc 1715947200000000000 one_day_example
                @ (if gzip one_day_example then gzipExt else [])
              \<in> set (SizeLimit_OutdatedFiles utc ?glob 1715947440000000000 one_day_example)
            \<longleftrightarrow> SizeLimit_name_for utc one_day_example (1715947200000000000 - shift_ns)
                  @ (if gzip one_day_example then gzipExt else [])
                < SizeLimit_name_for utc one_day_example
                    (1715947440000000000 - sint (days one_day_example) * day_ns)
                  @ (if gzip one_day_example then gzipExt else [])"
    using SizeLimit_timestamp_shifted
      [of utc 1715947440000000000 one_day_example 1715947200000000000 ?glob "[?b]"] h
    by blast
  show ?thesis
    using late early by (simp add: one_day_fields one_day_names)
qed

subsection \<open>What a reading of the clock leaves alone\<close>

lemma ShallRotate_world:
  "ShallRotate lib rl cs n w = (b, w0) \<Longrightarrow>
   fault w0 = fault w \<and> files w0 = files w \<and> calls w0 = calls w \<and> stderr w0 = stderr w
   \<and> spawned w0 = spawned w"
  by (auto simp: ShallRotate_def time_Now_def split: RotateRule.splits)

lemma MarkRotated_world:
  "MarkRotated lib rl w = (rl', w') \<Longrightarrow>
   fault w' = fault w \<and> files w' = files w \<and> calls w' = calls w \<and> stderr w' = stderr w
   \<and> spawned w' = spawned w"
  by (auto simp: MarkRotated_def time_Now_def)

lemma BackupFileName_world:
  "BackupFileName lib rl w = (bn, w') \<Longrightarrow>
   fault w' = fault w \<and> files w' = files w \<and> calls w' = calls w \<and> stderr w' = stderr w
   \<and> spawned w' = spawned w"
  by (auto simp: BackupFileName_def time_Now_def)

subsection \<open>A rotation that succeeds\<close>

lemma rotate_success:
  assumes "rotate_file lib l w = (None, l1, w1)"
  shows "fp l1 = Some (filename_l l) \<and> files w1 (filename_l l) = Some []
         \<and> rule l1 = rule l \<and> currentSize l1 = currentSize l \<and> filename_l l1 = filename_l l
         \<and> channel l1 = channel l \<and> fault w1 = fault w \<and> stderr w1 = stderr w
         \<and> (\<exists>before. calls w1 = before @ [CallCreate (filename_l l), CallCloseOnExec (filename_l l)])"
  using assms
  by (auto simp: rotate_file_def file_Close_def os_Stat_def os_Rename_def os_Create_def
      getBackupFilename_def BackupFileName_def time_Now_def postRotate_def fs_CloseOnExec_def
      called_def
      split: option.splits prod.splits if_splits)

lemma file_Write_appends:
  "files w h = Some content \<Longrightarrow> fault w (CallWrite h v) = None \<Longrightarrow>
   files (snd (file_Write (Some h) v w)) h = Some (content @ v)"
  by (simp add: file_Write_def called_def)

lemma file_Write_calls:
  "calls (snd (file_Write (Some h) v w)) = calls w @ [CallWrite h v]"
  by (simp add: file_Write_def called_def split: option.splits)

lemma write_step_after_rotation:
  assumes shall: "ShallRotate lib (rule l) (currentSize l) (len v) w = (True, w0)"
    and rot: "rotate_file lib l w0 = (None, l1, w1)"
    and mark: "MarkRotated lib (rule l1) w1 = (rl, w2)"
  shows "write_step lib l w v =
           (l1\<lparr>rule := rl, currentSize := len v\<rparr>, snd (file_Write (Some (filename_l l)) v w2))"
proof -
  have fp1: "fp l1 = Some (filename_l l)"
    using rotate_success [OF rot] by simp
  show ?thesis
    by (simp add: write_step_def shall rot mark fp1 split: prod.splits)
qed

lemma full_names:
  "SizeLimit_BackupFileName utc 1715947200000000000 sized_example = ''logs/app-2024-05-16T12:05:00Z.log''"
  "getNowDateInRFC3339Format utc 1715947200000000000 = ''2024-05-16T12:05:00Z''"
  by code_simp+

lemma full_shall:
  "ShallRotate utc (rule full_logger) (currentSize full_logger) (len (replicate 614400 CHR ''b'')) full_world
     = (True, full_world)"
  by (simp add: ShallRotate_def full_logger_def open_logger_def SizeLimit_ShallRotate_def
      sized_example_def megabyte_def len_def word_sless_alt)

lemma full_rotate:
  "fst (rotate_file utc full_logger full_world) = None"
  "files (snd (snd (rotate_file utc full_logger full_world))) ''logs/app-2024-05-16T12:05:00Z.log''
     = Some (replicate 614400 CHR ''a'')"
  "spawned (snd (snd (rotate_file utc full_logger full_world))) = [''logs/app-2024-05-16T12:05:00Z.log'']"
  "filename_l full_logger = ''logs/app.log''"
  "fault full_world = (\<lambda>c. None)"
  by (simp_all add: rotate_file_def full_logger_def open_logger_def full_world_def quiet_world_def
      file_Close_def os_Stat_def os_Rename_def os_Create_def getBackupFilename_def
      BackupFileName_def time_Now_def postRotate_def fs_CloseOnExec_def called_def full_names)

text \<open>
  Claim C1. The step \<^verbatim>\<open>write\<close> evaluates \<^verbatim>\<open>ShallRotate(currentSize, len(v))\<close> first. When it
  is true and the rotation returns no error, the counter is set to zero and
  \<^verbatim>\<open>MarkRotated\<close> runs before the record is written: the file created by the rotation is
  empty, the write of the record is the call that follows its creation, and after the
  step the rule is the marked one, the counter is exactly \<^verbatim>\<open>len(v)\<close> and, when the write
  does not fail, the new file holds exactly the record.
\<close>

theorem write_step_rotates_before_writing:
  assumes shall: "ShallRotate lib (rule l) (currentSize l) (len v) w = (True, w0)"
    and rot: "rotate_file lib l w0 = (None, l1, w1)"
    and mark: "MarkRotated lib (rule l1) w1 = (rl, w2)"
  shows "write_step lib l w v =
           (l1\<lparr>rule := rl, currentSize := len v\<rparr>, snd (file_Write (Some (filename_l l)) v w2))
         \<and> currentSize (fst (write_step lib l w v)) = len v
         \<and> rule (fst (write_step lib l w v)) = rl
         \<and> fp (fst (write_step lib l w v)) = Some (filename_l l)
         \<and> files w1 (filename_l l) = Some []
         \<and> calls (snd (write_step lib l w v)) = calls w1 @ [CallWrite (filename_l l) v]
         \<and> (\<exists>before. calls w1 = before @ [CallCreate (filename_l l), CallCloseOnExec (filename_l l)])
         \<and> (fault w (CallWrite (filename_l l) v) = None \<longrightarrow>
              files (snd (write_step lib l w v)) (filename_l l) = Some v)"
proof -
  note r = rotate_success [OF rot]
  note m = MarkRotated_world [OF mark]
  note s = ShallRotate_world [OF shall]
  have step: "write_step lib l w v =
           (l1\<lparr>rule := rl, currentSize := len v\<rparr>, snd (file_Write (Some (filename_l l)) v w2))"
    by (rule write_step_after_rotation [OF shall rot mark])
  have empty: "files w2 (filename_l l) = Some []"
    using r m by simp
  have written: "fault w (CallWrite (filename_l l) v) = None \<longrightarrow>
      files (snd (file_Write (Some (filename_l l)) v w2)) (filename_l l) = Some v"
    using file_Write_appends [of w2 "filename_l l" "[]" v] empty r m s by simp
  show ?thesis
    using r m written by (simp add: step file_Write_calls)
qed

text \<open>
  The budget is 1 MB, 600 KB are in the file and a record of 600 KB arrives: after the step
  the counter is 614400, the file holds the second record only, and the backup holds the
  first.
\<close>

theorem write_step_rotates_before_writing_witness:
  "currentSize (fst (write_step utc full_logger full_world (replicate 614400 CHR ''b''))) = 614400
   \<and> files (snd (write_step utc full_logger full_world (replicate 614400 CHR ''b''))) ''logs/app.log''
       = Some (replicate 614400 CHR ''b'')
   \<and> files (snd (snd (rotate_file utc full_logger full_world))) ''logs/app-2024-05-16T12:05:00Z.log''
       = Some (replicate 614400 CHR ''a'')"
proof -
  have rot: "rotate_file utc full_logger full_world
      = (None, fst (snd (rotate_file utc full_logger full_world)), snd (snd (rotate_file utc full_logger full_world)))"
    using full_rotate(1) by (simp add: prod_eq_iff)
  have mark: "MarkRotated utc (rule (fst (snd (rotate_file utc full_logger full_world))))
                (snd (snd (rotate_file utc full_logger full_world)))
      = (fst (MarkRotated utc (rule (fst (snd (rotate_file utc full_logger full_world))))
                (snd (snd (rotate_file utc full_logger full_world)))),
         snd (MarkRotated utc (rule (fst (snd (rotate_file utc full_logger full_world))))
                (snd (snd (rotate_file utc full_logger full_world)))))"
    by simp
  note t = write_step_rotates_before_writing [OF full_shall rot mark]
  have 1: "currentSize (fst (write_step utc full_logger full_world (replicate 614400 CHR ''b'')))
             = len (replicate 614400 CHR ''b'')"
    using t by blast
  have 2: "fault full_world (CallWrite (filename_l full_logger) (replicate 614400 CHR ''b'')) = None \<longrightarrow>
      files (snd (write_step utc full_logger full_world (replicate 614400 CHR ''b''))) (filename_l full_logger)
        = Some (replicate 614400 CHR ''b'')"
    using t by blast
  show ?thesis
    using 1 2 by (simp add: full_rotate len_def)
qed

subsection \<open>A rotation whose rename fails\<close>

lemma rotate_file_rename_fails:
  assumes closes: "\<forall>h. fp l = Some h \<longrightarrow> fault w (CallClose h) = None"
    and found: "fault w (CallStat (filename_l l)) = None \<and> files w (filename_l l) \<noteq> None"
    and cached: "backup l \<noteq> []"
    and fails: "fault w (CallRename (filename_l l) (backup l)) = Some e"
  shows "rotate_file lib l w =
           (Some e, l\<lparr>fp := None\<rparr>,
            w\<lparr>calls := calls w @ (case fp l of None \<Rightarrow> [] | Some h \<Rightarrow> [CallClose h])
                         @ [CallStat (filename_l l), CallRename (filename_l l) (backup l)]\<rparr>)"
proof (cases "fp l")
  case None
  then have "l\<lparr>fp := None\<rparr> = l" by simp
  then show ?thesis
    using None found cached fails
    by (auto simp: rotate_file_def os_Stat_def os_Rename_def getBackupFilename_def called_def)
next
  case (Some h)
  then show ?thesis
    using closes found cached fails
    by (auto simp: rotate_file_def file_Close_def os_Stat_def os_Rename_def getBackupFilename_def
        called_def)
qed

lemma write_step_rotation_fails:
  assumes shall: "ShallRotate lib (rule l) (currentSize l) (len v) w = (True, w0)"
    and rot: "rotate_file lib l w0 = (Some e, l1, w1)"
    and nofile: "fp l1 = None"
  shows "write_step lib l w v = (l1, log_Println (LogError e) w1)"
  by (simp add: write_step_def shall rot nofile)

lemma rename_fails_setup:
  "\<forall>h. fp open_logger = Some h \<longrightarrow> fault rename_fails_world (CallClose h) = None"
  "fault rename_fails_world (CallStat (filename_l open_logger)) = None
     \<and> files rename_fails_world (filename_l open_logger) \<noteq> None"
  "backup open_logger \<noteq> []"
  "fault rename_fails_world (CallRename (filename_l open_logger) (backup open_logger))
     = Some (ErrIO ''rename'')"
  by (simp_all add: open_logger_def rename_fails_world_def quiet_world_def)

lemma rename_fails_values:
  "filename_l open_logger = ''logs/app.log''" "calls rename_fails_world = []"
  "fp open_logger = Some ''logs/app.log''" "backup open_logger = ''logs/app-2024-05-16T12:05:00Z.log''"
  "files rename_fails_world ''logs/app.log'' = Some ''first record''"
  by (simp_all add: open_logger_def rename_fails_world_def quiet_world_def)

text \<open>
  Claim C4, as the code has it. When the handle closes, the file is there, a backup name
  is cached and the rename fails, \<^verbatim>\<open>rotate\<close> returns the error of the rename at once: the
  calls it made are the close, the stat and the rename, none creates the file again, the
  handle is \<^verbatim>\<open>nil\<close>, no goroutine is launched and the files are as they were. The step
  \<^verbatim>\<open>write\<close> then prints the error and, having no handle, does not write the record.
\<close>

theorem rotate_file_aborts_on_rename_failure:
  assumes closes: "\<forall>h. fp l = Some h \<longrightarrow> fault w (CallClose h) = None"
    and found: "fault w (CallStat (filename_l l)) = None \<and> files w (filename_l l) \<noteq> None"
    and cached: "backup l \<noteq> []"
    and fails: "fault w (CallRename (filename_l l) (backup l)) = Some e"
  shows "rotate_file lib l w =
           (Some e, l\<lparr>fp := None\<rparr>,
            w\<lparr>calls := calls w @ (case fp l of None \<Rightarrow> [] | Some h \<Rightarrow> [CallClose h])
                         @ [CallStat (filename_l l), CallRename (filename_l l) (backup l)]\<rparr>)
         \<and> fp (fst (snd (rotate_file lib l w))) = None
         \<and> (CallCreate (filename_l l) \<in> set (calls (snd (snd (rotate_file lib l w))))
              \<longleftrightarrow> CallCreate (filename_l l) \<in> set (calls w))
         \<and> files (snd (snd (rotate_file lib l w))) = files w
         \<and> spawned (snd (snd (rotate_file lib l w))) = spawned w
         \<and> (fst (ShallRotate lib (rule l) (currentSize l) (len v) w) \<longrightarrow>
              fst (write_step lib l w v) = l\<lparr>fp := None\<rparr>
              \<and> files (snd (write_step lib l w v)) = files w
              \<and> stderr (snd (write_step lib l w v)) = stderr w @ [LogError e]
              \<and> (\<forall>h. CallWrite h v \<in> set (calls (snd (write_step lib l w v)))
                       \<longrightarrow> CallWrite h v \<in> set (calls w)))"
proof -
  note r = rotate_file_rename_fails [OF closes found cached fails, of lib]
  have calls_new: "CallCreate (filename_l l) \<in> set (calls (snd (snd (rotate_file lib l w))))
              \<longleftrightarrow> CallCreate (filename_l l) \<in> set (calls w)"
    by (auto simp: r split: option.splits)
  have step: "fst (write_step lib l w v) = l\<lparr>fp := None\<rparr>
              \<and> files (snd (write_step lib l w v)) = files w
              \<and> stderr (snd (write_step lib l w v)) = stderr w @ [LogError e]
              \<and> (\<forall>h. CallWrite h v \<in> set (calls (snd (write_step lib l w v)))
                       \<longrightarrow> CallWrite h v \<in> set (calls w))"
    if shall: "fst (ShallRotate lib (rule l) (currentSize l) (len v) w)"
  proof -
    obtain w0 where s: "ShallRotate lib (rule l) (currentSize l) (len v) w = (True, w0)"
      using shall by (cases "ShallRotate lib (rule l) (currentSize l) (len v) w") simp
    note sw = ShallRotate_world [OF s]
    have closes0: "\<forall>h. fp l = Some h \<longrightarrow> fault w0 (CallClose h) = None"
      using closes sw by simp
    have found0: "fault w0 (CallStat (filename_l l)) = None \<and> files w0 (filename_l l) \<noteq> None"
      using found sw by simp
    have fails0: "fault w0 (CallRename (filename_l l) (backup l)) = Some e"
      using fails sw by simp
    note r0 = rotate_file_rename_fails [OF closes0 found0 cached fails0, of lib]
    have "write_step lib l w v = (l\<lparr>fp := None\<rparr>, log_Println (LogError e)
            (w0\<lparr>calls := calls w0 @ (case fp l of None \<Rightarrow> [] | Some h \<Rightarrow> [CallClose h])
                         @ [CallStat (filename_l l), CallRename (filename_l l) (backup l)]\<rparr>))"
      by (rule write_step_rotation_fails [OF s r0]) simp
    then show ?thesis
      using sw by (auto simp: log_Println_def split: option.splits)
  qed
  show ?thesis
    using calls_new step by (simp add: r)
qed

theorem rotate_file_aborts_on_rename_failure_witness:
  "fst (rotate_file utc open_logger rename_fails_world) = Some (ErrIO ''rename'')
   \<and> fp (fst (snd (rotate_file utc open_logger rename_fails_world))) = None
   \<and> calls (snd (snd (rotate_file utc open_logger rename_fails_world)))
       = [CallClose ''logs/app.log'', CallStat ''logs/app.log'',
          CallRename ''logs/app.log'' ''logs/app-2024-05-16T12:05:00Z.log'']
   \<and> files (snd (snd (rotate_file utc open_logger rename_fails_world))) ''logs/app.log''
       = Some ''first record''"
  using rotate_file_aborts_on_rename_failure [OF rename_fails_setup, of utc "[]"]
  by (simp add: rename_fails_values)

text \<open>
  Claim C4 as the specification states it fails: the rename fails, and \<^verbatim>\<open>rotate\<close> returns
  without a call that creates the file, leaving no handle.
\<close>

theorem rotate_file_reopens_counterexample:
  "fault rename_fails_world (CallRename ''logs/app.log'' ''logs/app-2024-05-16T12:05:00Z.log'')
     = Some (ErrIO ''rename'')
   \<and> fst (rotate_file utc open_logger rename_fails_world) = Some (ErrIO ''rename'')
   \<and> CallCreate ''logs/app.log'' \<notin> set (calls (snd (snd (rotate_file utc open_logger rename_fails_world))))
   \<and> fp (fst (snd (rotate_file utc open_logger rename_fails_world))) = None"
  by (simp add: rotate_file_def open_logger_def rename_fails_world_def quiet_world_def
      file_Close_def os_Stat_def os_Rename_def getBackupFilename_def called_def)

subsection \<open>Closing twice\<close>

lemma Close_sets_closeOnce: "closeOnce (fst (snd (Close lib k l w)))"
  by (simp add: Close_def Let_def split: prod.splits)

lemma Close_sync_fails:
  "fst (Close utc 0 open_logger sync_fails_world) = Some (ErrIO ''sync'')"
  "calls (snd (snd (Close utc 0 open_logger sync_fails_world))) = [CallSync ''logs/app.log'']"
  by (simp_all add: Close_def open_logger_def sync_fails_world_def quiet_world_def file_Sync_def
      file_Close_def called_def)

text \<open>
  Claim C3, as the code has it. After a call of \<^verbatim>\<open>Close\<close>, whatever it returned, a second
  call returns \<^verbatim>\<open>nil\<close> and changes neither the logger nor the world: it makes no call on
  the file system. (The error of the first call is not kept: \<^verbatim>\<open>err\<close> is a local variable
  of each call.)
\<close>

theorem Close_second_call:
  "closeOnce (fst (snd (Close lib k l w)))
   \<and> Close lib k' (fst (snd (Close lib k l w))) (snd (snd (Close lib k l w)))
       = (None, fst (snd (Close lib k l w)), snd (snd (Close lib k l w)))"
  using Close_sets_closeOnce [of lib k l w] by (simp add: Close_def)

theorem Close_second_call_witness:
  "fst (Close utc 0 open_logger sync_fails_world) = Some (ErrIO ''sync'')
   \<and> fst (Close utc 0 (fst (snd (Close utc 0 open_logger sync_fails_world)))
             (snd (snd (Close utc 0 open_logger sync_fails_world)))) = None
   \<and> calls (snd (snd (Close utc 0 (fst (snd (Close utc 0 open_logger sync_fails_world)))
             (snd (snd (Close utc 0 open_logger sync_fails_world))))))
       = [CallSync ''logs/app.log'']"
  using Close_second_call [of utc 0 open_logger sync_fails_world 0]
  by (simp add: Close_sync_fails)

text \<open>
  Claim C3 as the specification states it fails when the first call returns an error:
  with a failing \<^verbatim>\<open>Sync\<close> the first call returns that error and the second returns \<^verbatim>\<open>nil\<close>.
\<close>

theorem Close_second_call_counterexample:
  "fst (Close utc 0 (fst (snd (Close utc 0 open_logger sync_fails_world)))
          (snd (snd (Close utc 0 open_logger sync_fails_world))))
   \<noteq> fst (Close utc 0 open_logger sync_fails_world)"
proof -
  have "closeOnce (fst (snd (Close utc 0 open_logger sync_fails_world)))"
    by (rule Close_sets_closeOnce)
  then have "fst (Close utc 0 (fst (snd (Close utc 0 open_logger sync_fails_world)))
          (snd (snd (Close utc 0 open_logger sync_fails_world)))) = None"
    by (simp add: Close_def)
  then show ?thesis
    by (simp add: Close_sync_fails)
qed

subsection \<open>Writing after the logger is closed\<close>

lemma Write_after_close_with_room:
  "done_closed l \<Longrightarrow> length (channel l) < bufferSize \<Longrightarrow>
   Write l w data =
     [((len data, None), l\<lparr>channel := channel l @ [data]\<rparr>, w),
      ((0, Some ErrLogFileClosed), l, log_Println (LogText data) w)]"
  by (simp add: Write_def)

lemma Write_after_close_full:
  "done_closed l \<Longrightarrow> length (channel l) = bufferSize \<Longrightarrow>
   Write l w data = [((0, Some ErrLogFileClosed), l, log_Println (LogText data) w)]"
  by (simp add: Write_def)

lemma Close_quiet:
  "fst (Close utc 0 open_logger quiet_world) = None"
  "done_closed (fst (snd (Close utc 0 open_logger quiet_world)))"
  "\<not> running (fst (snd (Close utc 0 open_logger quiet_world)))"
  "channel (fst (snd (Close utc 0 open_logger quiet_world))) = []"
  "stderr (snd (snd (Close utc 0 open_logger quiet_world))) = []"
  "files (snd (snd (Close utc 0 open_logger quiet_world))) ''logs/app.log'' = Some ''first record''"
  by (simp_all add: Close_def open_logger_def quiet_world_def file_Sync_def file_Close_def called_def)

text \<open>
  Claim C9 does not hold of the code. After \<^verbatim>\<open>Close\<close> has returned, with the queue empty,
  \<^verbatim>\<open>Write\<close> has two outcomes: the queue has room, so \<^verbatim>\<open>select\<close> may pick the send. In that
  outcome the call returns the length of the record and no error, the record sits in the
  queue of a logger whose worker has returned, and neither the fallback stream nor the
  file receives it.
\<close>

theorem Write_after_Close_may_enqueue:
  "map fst (Write (fst (snd (Close utc 0 open_logger quiet_world)))
                  (snd (snd (Close utc 0 open_logger quiet_world))) ''late'')
     = [(4, None), (0, Some ErrLogFileClosed)]
   \<and> channel (fst (snd (hd (Write (fst (snd (Close utc 0 open_logger quiet_world)))
                  (snd (snd (Close utc 0 open_logger quiet_world))) ''late'')))) = [''late'']
   \<and> \<not> running (fst (snd (hd (Write (fst (snd (Close utc 0 open_logger quiet_world)))
                  (snd (snd (Close utc 0 open_logger quiet_world))) ''late''))))
   \<and> stderr (snd (snd (hd (Write (fst (snd (Close utc 0 open_logger quiet_world)))
                  (snd (snd (Close utc 0 open_logger quiet_world))) ''late'')))) = []
   \<and> files (snd (snd (hd (Write (fst (snd (Close utc 0 open_logger quiet_world)))
                  (snd (snd (Close utc 0 open_logger quiet_world))) ''late'')))) ''logs/app.log''
       = Some ''first record''"
  by (simp add: Write_after_close_with_room Close_quiet bufferSize_def len_def)

end
